theory Spec2Isabelle
  imports Main
begin

section \<open>Shared vocabulary\<close>

text \<open>
  Go's \<^verbatim>\<open>interface{}\<close> arguments. \<open>VSlice\<close> is a slice passed as one value, which is
  what a variadic call receives when a slice is handed over without \<^verbatim>\<open>...\<close>.
\<close>

datatype val = VNil | VInt int | VString string | VSlice "val list"

text \<open>Every error value the modelled code can return; a Go panic is \<open>Panic\<close>.\<close>

datatype error =
    TableNameEmpty
  | WrongConfig string
  | CannotBuildQuery
  | CannotInferIntermediateTable
  | DifferentTables string string
  | DriverError string
  | Panic string

text \<open>\<^verbatim>\<open>context.Context\<close>: the background context or one supplied by the caller.\<close>

datatype ctx = Background | CallerCtx nat

text \<open>\<^verbatim>\<open>strings.Join(elems, sep)\<close>.\<close>

fun strings_Join :: "string list \<Rightarrow> string \<Rightarrow> string" where
  "strings_Join [] sep = []"
| "strings_Join [x] sep = x"
| "strings_Join (x # y # ys) sep = x @ sep @ strings_Join (y # ys) sep"

section \<open>The query builder of builder/query.go\<close>

text \<open>
  The clause structs. The \<^verbatim>\<open>parent\<close> pointer of each clause is the query that owns it;
  here a clause is reached through its owner, so the back pointer is the owner itself
  (see \<open>whereRef\<close> and \<open>joinRef\<close> below). The condition of a join is set by methods of
  \<^verbatim>\<open>joinClause\<close> that live outside query.go; the field \<open>jc_on\<close> holds it.
\<close>

record selectClause =
  sel_distinct :: bool
  sel_columns :: "string list"

record whereClause =
  conds :: "string list"

record orderbyClause =
  ob_columns :: "string list"
  ob_desc :: bool

record groupByClause =
  gb_columns :: "string list"

record joinClause =
  jc_table :: string
  joinType :: string
  jc_on :: string

text \<open>
  \<^verbatim>\<open>type query struct\<close>. A nil pointer is \<open>None\<close>; a nil slice is \<open>[]\<close> (the code only
  ever appends to \<^verbatim>\<open>filters\<close> and \<^verbatim>\<open>joins\<close>, so non-nil and non-empty coincide).
\<close>

record query =
  table :: string
  projected :: "selectClause option"
  filters :: "whereClause list"
  orderBy :: "orderbyClause option"
  groupBy :: "groupByClause option"
  joins :: "joinClause list"

text \<open>
  The \<^verbatim>\<open>String()\<close> methods of \<^verbatim>\<open>selectClause\<close>, \<^verbatim>\<open>orderbyClause\<close> and \<^verbatim>\<open>groupByClause\<close>
  are declared outside query.go; \<^verbatim>\<open>SQL()\<close> only calls them. They are parameters.
\<close>

record stringers =
  selectString :: "selectClause \<Rightarrow> string"
  orderbyString :: "orderbyClause \<Rightarrow> string"
  groupByString :: "groupByClause \<Rightarrow> string"

text \<open>
  Modelled from the spec: \<^verbatim>\<open>joinClause.String()\<close> is not in query.go. The spec (4.3, JOIN
  rendering) gives its output as \<^verbatim>\<open><TYPE> JOIN <table> ON <condition>\<close>.
\<close>

definition joinClause_String :: "joinClause \<Rightarrow> string" where
  "joinClause_String j = joinType j @ '' JOIN '' @ jc_table j @ '' ON '' @ jc_on j"

text \<open>
  A \<^verbatim>\<open>*whereClause\<close> returned by \<^verbatim>\<open>Where\<close> aliases an element of \<^verbatim>\<open>q.filters\<close>: it is the
  owning query together with the element's index. The same holds for \<^verbatim>\<open>*joinClause\<close>.
\<close>

type_synonym whereRef = "query \<times> nat"
type_synonym joinRef = "query \<times> nat"

text \<open>
  The methods of \<^verbatim>\<open>query\<close>. \<^verbatim>\<open>Select\<close>, \<^verbatim>\<open>GroupBy\<close> and \<^verbatim>\<open>OrderBy\<close> return a pointer to the
  clause they stored, whose methods are outside query.go; here they return the query
  with the clause stored.
\<close>

definition NewQuery :: query where
  "NewQuery = \<lparr>table = '''', projected = None, filters = [], orderBy = None,
     groupBy = None, joins = []\<rparr>"

definition query_Table :: "query \<Rightarrow> string \<Rightarrow> query" where
  "query_Table q t = q\<lparr>table := t\<rparr>"

definition query_Select :: "query \<Rightarrow> string list \<Rightarrow> query" where
  "query_Select q columns = q\<lparr>projected := Some \<lparr>sel_distinct = False, sel_columns = columns\<rparr>\<rparr>"

definition query_InnerJoin :: "query \<Rightarrow> string \<Rightarrow> joinRef" where
  "query_InnerJoin q t =
     (q\<lparr>joins := joins q @ [\<lparr>jc_table = t, joinType = ''INNER'', jc_on = ''''\<rparr>]\<rparr>,
      length (joins q))"

definition query_RightJoin :: "query \<Rightarrow> string \<Rightarrow> joinRef" where
  "query_RightJoin q t =
     (q\<lparr>joins := joins q @ [\<lparr>jc_table = t, joinType = ''RIGHT'', jc_on = ''''\<rparr>]\<rparr>,
      length (joins q))"

definition query_LeftJoin :: "query \<Rightarrow> string \<Rightarrow> joinRef" where
  "query_LeftJoin q t =
     (q\<lparr>joins := joins q @ [\<lparr>jc_table = t, joinType = ''LEFT'', jc_on = ''''\<rparr>]\<rparr>,
      length (joins q))"

definition query_FullOuterJoin :: "query \<Rightarrow> string \<Rightarrow> joinRef" where
  "query_FullOuterJoin q t =
     (q\<lparr>joins := joins q @ [\<lparr>jc_table = t, joinType = ''FULL OUTER'', jc_on = ''''\<rparr>]\<rparr>,
      length (joins q))"

definition query_GroupBy :: "query \<Rightarrow> string list \<Rightarrow> query" where
  "query_GroupBy q columns = q\<lparr>groupBy := Some \<lparr>gb_columns = columns\<rparr>\<rparr>"

definition query_Where :: "query \<Rightarrow> string list \<Rightarrow> whereRef" where
  "query_Where q parts =
     (q\<lparr>filters := filters q @ [\<lparr>conds = [strings_Join parts '' '']\<rparr>]\<rparr>, length (filters q))"

definition query_OrderBy :: "query \<Rightarrow> string list \<Rightarrow> query" where
  "query_OrderBy q columns = q\<lparr>orderBy := Some \<lparr>ob_columns = columns, ob_desc = False\<rparr>\<rparr>"

text \<open>
  The methods of \<^verbatim>\<open>whereClause\<close>. \<^verbatim>\<open>And\<close>, \<^verbatim>\<open>Or\<close> and \<^verbatim>\<open>Not\<close> append to \<^verbatim>\<open>w.conds\<close> through
  the pointer \<open>w\<close> and return it. A reference made by \<^verbatim>\<open>Where\<close> always points at an
  existing element of \<^verbatim>\<open>filters\<close>.
\<close>

definition whereClause_And :: "whereRef \<Rightarrow> string list \<Rightarrow> whereRef" where
  "whereClause_And w parts =
     (case w of (q, i) \<Rightarrow>
        (q\<lparr>filters := (filters q)[i := (filters q ! i)\<lparr>conds :=
              conds (filters q ! i) @ [''AND '' @ strings_Join parts '' '']\<rparr>]\<rparr>, i))"

definition whereClause_Query :: "whereRef \<Rightarrow> query" where
  "whereClause_Query w = fst w"

definition whereClause_Or :: "whereRef \<Rightarrow> string list \<Rightarrow> whereRef" where
  "whereClause_Or w parts =
     (case w of (q, i) \<Rightarrow>
        (q\<lparr>filters := (filters q)[i := (filters q ! i)\<lparr>conds :=
              conds (filters q ! i) @ [''OR '' @ strings_Join parts '' '']\<rparr>]\<rparr>, i))"

definition whereClause_Not :: "whereRef \<Rightarrow> string list \<Rightarrow> whereRef" where
  "whereClause_Not w parts =
     (case w of (q, i) \<Rightarrow>
        (q\<lparr>filters := (filters q)[i := (filters q ! i)\<lparr>conds :=
              conds (filters q ! i) @ [''NOT '' @ strings_Join parts '' '']\<rparr>]\<rparr>, i))"

definition whereClause_String :: "whereClause \<Rightarrow> string" where
  "whereClause_String w = strings_Join (conds w) '' ''"

text \<open>
  \<^verbatim>\<open>query.SQL()\<close>. It stores the default projection in the receiver before it checks the
  table name, so the updated query is returned with the Go result pair
  \<^verbatim>\<open>(string, error)\<close>.
\<close>

definition defaultProjection :: selectClause where
  "defaultProjection = \<lparr>sel_distinct = False, sel_columns = [''*'']\<rparr>"

definition query_SQL :: "stringers \<Rightarrow> query \<Rightarrow> query \<times> string \<times> error option" where
  "query_SQL R q =
     (let p = (case projected q of None \<Rightarrow> defaultProjection | Some s \<Rightarrow> s);
          q1 = q\<lparr>projected := Some p\<rparr>;
          s0 = [''SELECT'', selectString R p]
      in if table q1 = '''' then (q1, '''', Some TableNameEmpty)
         else
           let s1 = s0 @ [''FROM '' @ table q1];
               s2 = (if filters q1 \<noteq> [] then s1 @ [''WHERE''] @ map whereClause_String (filters q1)
                     else s1);
               s3 = (case orderBy q1 of None \<Rightarrow> s2
                     | Some ob \<Rightarrow> s2 @ [''ORDER BY'', orderbyString R ob]);
               s4 = (case groupBy q1 of None \<Rightarrow> s3
                     | Some gb \<Rightarrow> s3 @ [''GROUP BY'', groupByString R gb]);
               s5 = (if joins q1 \<noteq> [] then s4 @ map joinClause_String (joins q1) else s4)
           in (q1, strings_Join s5 '' '', None))"

text \<open>
  \<^verbatim>\<open>Exec\<close>, \<^verbatim>\<open>ExecContext\<close>, \<^verbatim>\<open>Bind\<close> and \<^verbatim>\<open>BindContext\<close>. The package functions
  \<^verbatim>\<open>exec\<close> and \<^verbatim>\<open>_bind\<close> that talk to the database are declared outside query.go and
  are parameters: they take the database and return it with their result, \<^verbatim>\<open>_bind\<close>
  also the destination \<open>v\<close> it fills. \<^verbatim>\<open>ExecContext\<close> passes the background context,
  not its own \<open>c\<close>, as the source does.
\<close>

definition query_Exec ::
  "stringers \<Rightarrow> (ctx \<Rightarrow> 'db \<Rightarrow> string \<Rightarrow> val list \<Rightarrow> 'db \<times> (error + 'r)) \<Rightarrow>
   query \<Rightarrow> 'db \<Rightarrow> val list \<Rightarrow> query \<times> 'db \<times> (error + 'r)" where
  "query_Exec R exec q db args =
     (case query_SQL R q of
        (q1, s, Some err) \<Rightarrow> (q1, db, Inl err)
      | (q1, s, None) \<Rightarrow> (case exec Background db s args of (db1, r) \<Rightarrow> (q1, db1, r)))"

definition query_ExecContext ::
  "stringers \<Rightarrow> (ctx \<Rightarrow> 'db \<Rightarrow> string \<Rightarrow> val list \<Rightarrow> 'db \<times> (error + 'r)) \<Rightarrow>
   query \<Rightarrow> ctx \<Rightarrow> 'db \<Rightarrow> val list \<Rightarrow> query \<times> 'db \<times> (error + 'r)" where
  "query_ExecContext R exec q c db args =
     (case query_SQL R q of
        (q1, s, Some err) \<Rightarrow> (q1, db, Inl err)
      | (q1, s, None) \<Rightarrow> (case exec Background db s args of (db1, r) \<Rightarrow> (q1, db1, r)))"

definition query_Bind ::
  "stringers \<Rightarrow> (ctx \<Rightarrow> 'db \<Rightarrow> 'v \<Rightarrow> string \<Rightarrow> val list \<Rightarrow> 'db \<times> 'v \<times> error option) \<Rightarrow>
   query \<Rightarrow> 'db \<Rightarrow> 'v \<Rightarrow> val list \<Rightarrow> query \<times> 'db \<times> 'v \<times> error option" where
  "query_Bind R bind q db v args =
     (case query_SQL R q of
        (q1, s, Some err) \<Rightarrow> (q1, db, v, Some err)
      | (q1, s, None) \<Rightarrow> (case bind Background db v s args of (db1, v1, e) \<Rightarrow> (q1, db1, v1, e)))"

definition query_BindContext ::
  "stringers \<Rightarrow> (ctx \<Rightarrow> 'db \<Rightarrow> 'v \<Rightarrow> string \<Rightarrow> val list \<Rightarrow> 'db \<times> 'v \<times> error option) \<Rightarrow>
   query \<Rightarrow> ctx \<Rightarrow> 'db \<Rightarrow> 'v \<Rightarrow> val list \<Rightarrow> query \<times> 'db \<times> 'v \<times> error option" where
  "query_BindContext R bind q c db v args =
     (case query_SQL R q of
        (q1, s, Some err) \<Rightarrow> (q1, db, v, Some err)
      | (q1, s, None) \<Rightarrow> (case bind c db v s args of (db1, v1, e) \<Rightarrow> (q1, db1, v1, e)))"

section \<open>The statement builders used by orm.go\<close>

text \<open>\<^verbatim>\<open>fmt.Sprint\<close> of a non-negative integer: its decimal digits.\<close>

function show_nat :: "nat \<Rightarrow> string" where
  "show_nat n =
     (if n < 10 then [''0123456789'' ! n]
      else show_nat (n div 10) @ [''0123456789'' ! (n mod 10)])"
  by pat_completeness auto
termination
  by (relation "measure id") auto

declare show_nat.simps [simp del]

text \<open>
  Modelled from the spec: \<^verbatim>\<open>PlaceHolderGenerators\<close> is not among the sources. The spec (4.3,
  placeholder generation): for N columns either N repeated \<^verbatim>\<open>?\<close> markers or N
  sequentially numbered markers \<^verbatim>\<open>$1..$N\<close>.
\<close>

definition Postgres :: "nat \<Rightarrow> string list" where
  "Postgres n = map (\<lambda>i. ''$'' @ show_nat i) [1..<Suc n]"

definition MySQL :: "nat \<Rightarrow> string list" where
  "MySQL n = replicate n ''?''"

text \<open>
  Modelled from the spec: the package \<^verbatim>\<open>querybuilder\<close> (\<^verbatim>\<open>Insert\<close>, \<^verbatim>\<open>Update\<close>, \<^verbatim>\<open>Delete\<close>,
  \<^verbatim>\<open>Select\<close>) is not among the sources; orm.go only calls it. The spec (4.3): a fluent sequence
  of configuration calls mutates the builder's state, and the terminal \<^verbatim>\<open>Build\<close> renders
  the statement string and returns the parallel argument slice. Each builder is a record
  of what the calls handed over, in call order; \<^verbatim>\<open>WithArgs\<close> is variadic and appends the
  arguments it receives. The rendered text follows the statements the README shows
  (\<^verbatim>\<open>INSERT INTO users (name) VALUES (?)\<close>, \<^verbatim>\<open>UPDATE users SET name=? WHERE id=?\<close>,
  \<^verbatim>\<open>DELETE FROM posts WHERE id=?\<close>, \<^verbatim>\<open>SELECT * FROM users\<close>); multi-row inserts keep one
  parenthesised group per row. \<^verbatim>\<open>Build\<close> without a table gives the empty result
  (spec 4.3, validation), which is what \<^verbatim>\<open>HasMany\<close> tests for.
\<close>

record InsertStmt =
  ins_table :: string
  ins_into :: "string list"
  ins_values :: "string list list"
  ins_args :: "val list"

definition Insert_new :: InsertStmt where
  "Insert_new = \<lparr>ins_table = '''', ins_into = [], ins_values = [], ins_args = []\<rparr>"

definition Insert_Table :: "InsertStmt \<Rightarrow> string \<Rightarrow> InsertStmt" where
  "Insert_Table i t = i\<lparr>ins_table := t\<rparr>"

definition Insert_Into :: "InsertStmt \<Rightarrow> string list \<Rightarrow> InsertStmt" where
  "Insert_Into i cols = i\<lparr>ins_into := ins_into i @ cols\<rparr>"

definition Insert_Values :: "InsertStmt \<Rightarrow> string list \<Rightarrow> InsertStmt" where
  "Insert_Values i row = i\<lparr>ins_values := ins_values i @ [row]\<rparr>"

definition Insert_WithArgs :: "InsertStmt \<Rightarrow> val list \<Rightarrow> InsertStmt" where
  "Insert_WithArgs i args = i\<lparr>ins_args := ins_args i @ args\<rparr>"

definition Insert_Build :: "InsertStmt \<Rightarrow> string \<times> val list" where
  "Insert_Build i =
     (if ins_table i = '''' then ('''', [])
      else (''INSERT INTO '' @ ins_table i @ '' ('' @ strings_Join (ins_into i) '','' @ '') VALUES ''
              @ strings_Join (map (\<lambda>row. ''('' @ strings_Join row '','' @ '')'') (ins_values i)) '','',
            ins_args i))"

record UpdateStmt =
  upd_table :: string
  upd_where :: string
  upd_set :: "(string \<times> string) list"
  upd_args :: "val list"

definition UpdateStmt_new :: UpdateStmt where
  "UpdateStmt_new = \<lparr>upd_table = '''', upd_where = '''', upd_set = [], upd_args = []\<rparr>"

definition Update_Table :: "UpdateStmt \<Rightarrow> string \<Rightarrow> UpdateStmt" where
  "Update_Table u t = u\<lparr>upd_table := t\<rparr>"

definition Update_Where :: "UpdateStmt \<Rightarrow> string \<Rightarrow> UpdateStmt" where
  "Update_Where u w = u\<lparr>upd_where := w\<rparr>"

definition Update_Set :: "UpdateStmt \<Rightarrow> string \<Rightarrow> string \<Rightarrow> UpdateStmt" where
  "Update_Set u k v = u\<lparr>upd_set := upd_set u @ [(k, v)]\<rparr>"

definition Update_WithArgs :: "UpdateStmt \<Rightarrow> val list \<Rightarrow> UpdateStmt" where
  "Update_WithArgs u args = u\<lparr>upd_args := upd_args u @ args\<rparr>"

definition Update_Build :: "UpdateStmt \<Rightarrow> string \<times> val list" where
  "Update_Build u =
     (if upd_table u = '''' then ('''', [])
      else (''UPDATE '' @ upd_table u @ '' SET ''
              @ strings_Join (map (\<lambda>(k, v). k @ ''='' @ v) (upd_set u)) '',''
              @ '' WHERE '' @ upd_where u,
            upd_args u))"

record DeleteStmt =
  del_table :: string
  del_where :: string
  del_args :: "val list"

definition Delete_new :: DeleteStmt where
  "Delete_new = \<lparr>del_table = '''', del_where = '''', del_args = []\<rparr>"

definition Delete_Table :: "DeleteStmt \<Rightarrow> string \<Rightarrow> DeleteStmt" where
  "Delete_Table d t = d\<lparr>del_table := t\<rparr>"

definition Delete_Where :: "DeleteStmt \<Rightarrow> string \<Rightarrow> DeleteStmt" where
  "Delete_Where d w = d\<lparr>del_where := w\<rparr>"

definition Delete_WithArgs :: "DeleteStmt \<Rightarrow> val list \<Rightarrow> DeleteStmt" where
  "Delete_WithArgs d args = d\<lparr>del_args := del_args d @ args\<rparr>"

definition Delete_Build :: "DeleteStmt \<Rightarrow> string \<times> val list" where
  "Delete_Build d =
     (if del_table d = '''' then ('''', [])
      else (''DELETE FROM '' @ del_table d @ '' WHERE '' @ del_where d, del_args d))"

record SelectStmt =
  sst_columns :: "string list"
  sst_from :: string
  sst_where :: string
  sst_args :: "val list"

definition Select_new :: SelectStmt where
  "Select_new = \<lparr>sst_columns = [], sst_from = '''', sst_where = '''', sst_args = []\<rparr>"

definition Select_From :: "SelectStmt \<Rightarrow> string \<Rightarrow> SelectStmt" where
  "Select_From s t = s\<lparr>sst_from := t\<rparr>"

definition Select_Where :: "SelectStmt \<Rightarrow> string \<Rightarrow> SelectStmt" where
  "Select_Where s w = s\<lparr>sst_where := w\<rparr>"

definition Select_WithArgs :: "SelectStmt \<Rightarrow> val list \<Rightarrow> SelectStmt" where
  "Select_WithArgs s args = s\<lparr>sst_args := sst_args s @ args\<rparr>"

definition Select_Build :: "SelectStmt \<Rightarrow> string \<times> val list" where
  "Select_Build s =
     (if sst_from s = '''' then ('''', [])
      else (''SELECT '' @ (if sst_columns s = [] then ''*'' else strings_Join (sst_columns s) '','')
              @ '' FROM '' @ sst_from s
              @ (if sst_where s = '''' then '''' else '' WHERE '' @ sst_where s),
            sst_args s))"

section \<open>The ORM of orm.go\<close>

record Dialect =
  DriverName :: string
  PlaceholderChar :: string
  IncludeIndexInPlaceholder :: bool

record HasManyConfig =
  PropertyTable :: string
  PropertyForeignKey :: string

record HasOneConfig =
  PropertyTable :: string
  PropertyForeignKey :: string

record BelongsToConfig =
  OwnerTable :: string
  LocalForeignKey :: string
  ForeignColumnName :: string

record BelongsToManyConfig =
  IntermediateTable :: string
  IntermediatePropertyID :: string
  IntermediateOwnerID :: string
  ForeignTable :: string
  ForeignLookupColumn :: string

text \<open>
  What \<^verbatim>\<open>schema.relations\<close> stores for a related table: a value whose dynamic type is one
  of the four config structs. The type assertion \<^verbatim>\<open>.(HasManyConfig)\<close> succeeds on
  \<open>HasManyRel\<close> only; a missing key yields nil, on which every assertion fails.
\<close>

datatype RelationConfig =
    HasOneRel HasOneConfig
  | HasManyRel HasManyConfig
  | BelongsToRel BelongsToConfig
  | BelongsToManyRel BelongsToManyConfig

record field =
  Name :: string
  Type :: string
  IsPK :: bool
  Virtual :: bool

text \<open>
  The \<^verbatim>\<open>schema\<close> struct is declared outside orm.go; these are the fields orm.go reads.
  \<^verbatim>\<open>getTable()\<close> and \<^verbatim>\<open>getDialect()\<close> are the accessors of \<open>Table\<close> and \<open>dialect\<close>
  (spec 4.2); \<open>schema_fields\<close> is the field \<^verbatim>\<open>fields\<close>.
\<close>

record schema =
  Table :: string
  schema_fields :: "field list"
  relations :: "string \<rightharpoonup> RelationConfig"
  dialect :: Dialect

text \<open>
  The database collaborator (\<^verbatim>\<open>*sql.DB\<close>): \<open>calls\<close> is the trace of the calls made on
  it, in order; \<open>answer_exec\<close> and \<open>answer_query\<close> are what the driver replies.
  \<^verbatim>\<open>getSQLDB()\<close>, \<^verbatim>\<open>getConnection().Connection\<close> and \<^verbatim>\<open>getConnectionFor(obj).Connection\<close>
  all yield it.
\<close>

datatype dbcall =
    CallExec string "val list"
  | CallQuery string "val list"
  | CallQueryContext ctx string "val list"

record sqlResult =
  LastInsertId :: "error + int"
  RowsAffected :: "error + int"

record 'rows database =
  calls :: "dbcall list"
  answer_exec :: "dbcall \<Rightarrow> error + sqlResult"
  answer_query :: "dbcall \<Rightarrow> error + 'rows"

definition db_Exec ::
  "'rows database \<Rightarrow> string \<Rightarrow> val list \<Rightarrow> 'rows database \<times> (error + sqlResult)" where
  "db_Exec db q args =
     (db\<lparr>calls := calls db @ [CallExec q args]\<rparr>, answer_exec db (CallExec q args))"

definition db_Query ::
  "'rows database \<Rightarrow> string \<Rightarrow> val list \<Rightarrow> 'rows database \<times> (error + 'rows)" where
  "db_Query db q args =
     (db\<lparr>calls := calls db @ [CallQuery q args]\<rparr>, answer_query db (CallQuery q args))"

definition db_QueryContext ::
  "'rows database \<Rightarrow> ctx \<Rightarrow> string \<Rightarrow> val list \<Rightarrow> 'rows database \<times> (error + 'rows)" where
  "db_QueryContext db c q args =
     (db\<lparr>calls := calls db @ [CallQueryContext c q args]\<rparr>,
      answer_query db (CallQueryContext c q args))"

text \<open>
  Functions that orm.go calls and that are declared outside it (the schema registry, the
  reflection helpers, the binding of rows, \<^verbatim>\<open>querybuilder.WhereHelpers.Equal\<close>) or outside the
  repository (\<^verbatim>\<open>pluralize.Singular\<close>). They are parameters; \<open>'e\<close> is the type of entity
  values. A type parameter such as \<^verbatim>\<open>OUT\<close> is passed as its zero value \<^verbatim>\<open>*new(OUT)\<close>.
  \<^verbatim>\<open>schema.bind(rows, output)\<close> fills a slice of entities or a single entity, depending on
  what \<open>output\<close> points to: \<open>bindMany\<close> and \<open>bindOne\<close>.
\<close>

record ('e, 'rows) helpers =
  getSchemaFor :: "'e \<Rightarrow> schema"
  schemaOf :: "'e \<Rightarrow> schema"
  Columns :: "schema \<Rightarrow> bool \<Rightarrow> string list"
  pkName :: "schema \<Rightarrow> string"
  genericValuesOf :: "'e \<Rightarrow> bool \<Rightarrow> val list"
  genericGetPKValue :: "'e \<Rightarrow> val"
  genericSetPkValue :: "'e \<Rightarrow> int \<Rightarrow> 'e"
  Equal :: "string \<Rightarrow> string \<Rightarrow> string"
  Singular :: "string \<Rightarrow> string"
  bindMany :: "schema \<Rightarrow> 'rows \<Rightarrow> 'e list \<Rightarrow> 'e list \<times> error option"
  bindOne :: "schema \<Rightarrow> 'rows \<Rightarrow> 'e \<Rightarrow> 'e \<times> error option"

text \<open>\<^verbatim>\<open>Insert\<close>. It returns the entity too: \<^verbatim>\<open>genericSetPkValue\<close> writes the new key into it.\<close>

definition Insert ::
  "('e, 'rows) helpers \<Rightarrow> 'rows database \<Rightarrow> 'e \<Rightarrow> 'rows database \<times> 'e \<times> error option" where
  "Insert H db obj =
     (let s = getSchemaFor H obj;
          cols = Columns H s False;
          values = genericValuesOf H obj False;
          phs = (if PlaceholderChar (dialect s) = ''$'' then Postgres (length cols)
                 else MySQL (length cols));
          qb = Insert_WithArgs
                 (Insert_Values (Insert_Into (Insert_Table Insert_new (Table s)) cols) phs) values
      in case Insert_Build qb of (q, args) \<Rightarrow>
         (case db_Exec db q args of
            (db1, Inl err) \<Rightarrow> (db1, obj, Some err)
          | (db1, Inr res) \<Rightarrow>
              (case LastInsertId res of
                 Inl err \<Rightarrow> (db1, obj, Some err)
               | Inr ident \<Rightarrow> (db1, genericSetPkValue H obj ident, None))))"

text \<open>The first loop of \<^verbatim>\<open>InsertAll\<close>: all entities must have one table.\<close>

fun sameTable :: "('e, 'rows) helpers \<Rightarrow> 'e list \<Rightarrow> string \<Rightarrow> error option" where
  "sameTable H [] lastTable = None"
| "sameTable H (obj # objs) lastTable =
     (let s = getSchemaFor H obj
      in if lastTable = '''' then sameTable H objs (Table s)
         else if lastTable \<noteq> Table s then Some (DifferentTables (Table s) lastTable)
         else sameTable H objs lastTable)"

text \<open>
  \<^verbatim>\<open>InsertAll\<close>. In its last loop \<^verbatim>\<open>qb.WithArgs(genericValuesOf(obj, false))\<close> hands the
  slice over without \<^verbatim>\<open>...\<close>, so the variadic parameter receives one argument, the slice
  itself; \<^verbatim>\<open>Exec(q, args)\<close> does the same with the built argument list. \<open>phs\<close> has one
  entry per entity, so \<^verbatim>\<open>phs[idx]\<close> is the entry paired with \<open>obj\<close>.
\<close>

definition InsertAll ::
  "('e, 'rows) helpers \<Rightarrow> 'rows database \<Rightarrow> 'e list \<Rightarrow> 'rows database \<times> 'e list \<times> error option" where
  "InsertAll H db objs =
     (case objs of
        [] \<Rightarrow> (db, objs, None)
      | [obj] \<Rightarrow> (case Insert H db obj of (db1, obj1, e) \<Rightarrow> (db1, [obj1], e))
      | obj0 # _ # _ \<Rightarrow>
          (case sameTable H objs '''' of
             Some err \<Rightarrow> (db, objs, Some err)
           | None \<Rightarrow>
               (let cols = Columns H (getSchemaFor H obj0) False;
                    phs = map (\<lambda>obj. if PlaceholderChar (dialect (getSchemaFor H obj)) = ''$''
                                      then Postgres (length cols) else MySQL (length cols)) objs;
                    qb0 = Insert_Into (Insert_Table Insert_new (Table (getSchemaFor H obj0))) cols;
                    qb = foldl (\<lambda>qb (ph, obj).
                                  Insert_WithArgs (Insert_Values qb ph)
                                    [VSlice (genericValuesOf H obj False)])
                               qb0 (zip phs objs)
                in case Insert_Build qb of (q, args) \<Rightarrow>
                   (case db_Exec db q [VSlice args] of
                      (db1, Inl err) \<Rightarrow> (db1, objs, Some err)
                    | (db1, Inr res) \<Rightarrow> (db1, objs, None)))))"

text \<open>
  \<^verbatim>\<open>toMap\<close>: the loop over \<open>cols\<close> reads \<^verbatim>\<open>vs[i]\<close>, which panics when \<open>vs\<close> is shorter.
\<close>

fun toMap_loop ::
  "string list \<Rightarrow> val list \<Rightarrow> nat \<Rightarrow> (string \<times> val) list \<Rightarrow> error + (string \<times> val) list" where
  "toMap_loop [] vs i kvs = Inr kvs"
| "toMap_loop (col # cols) vs i kvs =
     (if i < length vs then toMap_loop cols vs (Suc i) (kvs @ [(col, vs ! i)])
      else Inl (Panic ''index out of range''))"

definition toMap :: "('e, 'rows) helpers \<Rightarrow> 'e \<Rightarrow> bool \<Rightarrow> error + (string \<times> val) list" where
  "toMap H obj withPK =
     (let vs = genericValuesOf H obj withPK;
          cols = Columns H (getSchemaFor H obj) withPK
      in toMap_loop cols vs 0 [])"

text \<open>
  The loop of \<^verbatim>\<open>Update\<close> over \<open>kvs\<close>, with \<open>counter\<close> and the statement under
  construction as its state. (\<^verbatim>\<open>kvsWithPh\<close> is written and never read.)
\<close>

fun Update_loop :: "Dialect \<Rightarrow> (string \<times> val) list \<Rightarrow> nat \<Rightarrow> UpdateStmt \<Rightarrow> UpdateStmt" where
  "Update_loop d [] counter query = query"
| "Update_loop d ((k, v) # kvs) counter query =
     (let thisPh = (if IncludeIndexInPlaceholder d then PlaceholderChar d @ show_nat counter
                    else PlaceholderChar d)
      in Update_loop d kvs (Suc counter) (Update_WithArgs (Update_Set query k thisPh) [v]))"

definition Update ::
  "('e, 'rows) helpers \<Rightarrow> 'rows database \<Rightarrow> 'e \<Rightarrow> 'rows database \<times> error option" where
  "Update H db obj =
     (let s = getSchemaFor H obj;
          ph = (if IncludeIndexInPlaceholder (dialect s) then PlaceholderChar (dialect s) @ ''1''
                else PlaceholderChar (dialect s))
      in case toMap H obj False of
           Inl err \<Rightarrow> (db, Some err)
         | Inr kvs \<Rightarrow>
             (let whereClause = Equal H (pkName H s) ph;
                  query0 = Update_Where (Update_Table UpdateStmt_new (Table s)) whereClause;
                  query1 = Update_loop (dialect s) kvs 2 query0;
                  query2 = Update_WithArgs query1 [genericGetPKValue H obj]
              in case Update_Build query2 of (q, args) \<Rightarrow>
                 (case db_Exec db q args of
                    (db1, Inl err) \<Rightarrow> (db1, Some err)
                  | (db1, Inr res) \<Rightarrow> (db1, None))))"

definition Delete ::
  "('e, 'rows) helpers \<Rightarrow> 'rows database \<Rightarrow> 'e \<Rightarrow> 'rows database \<times> error option" where
  "Delete H db obj =
     (let s = getSchemaFor H obj;
          ph = (if IncludeIndexInPlaceholder (dialect s) then PlaceholderChar (dialect s) @ ''1''
                else PlaceholderChar (dialect s));
          query = Equal H (pkName H s) ph;
          qb = Delete_WithArgs (Delete_Where (Delete_Table Delete_new (Table s)) query)
                 [genericGetPKValue H obj]
      in case Delete_Build qb of (q, args) \<Rightarrow>
         (case db_Exec db q args of
            (db1, Inl err) \<Rightarrow> (db1, Some err)
          | (db1, Inr res) \<Rightarrow> (db1, None)))"

text \<open>
  \<^verbatim>\<open>bindContext[T]\<close>: one query on the database, then \<^verbatim>\<open>bind\<close> of \<open>T\<close>'s schema.
  \<open>bindf\<close> is \<open>bindMany H\<close> or \<open>bindOne H\<close>, as \<open>output\<close> is a slice or one entity.
\<close>

definition bindContext ::
  "(schema \<Rightarrow> 'rows \<Rightarrow> 'o \<Rightarrow> 'o \<times> error option) \<Rightarrow> ('e, 'rows) helpers \<Rightarrow> 'rows database \<Rightarrow>
   'e \<Rightarrow> ctx \<Rightarrow> 'o \<Rightarrow> string \<Rightarrow> val list \<Rightarrow> 'rows database \<times> 'o \<times> error option" where
  "bindContext bindf H db zeroT c output q args =
     (let outputMD = getSchemaFor H zeroT
      in case db_QueryContext db c q args of
           (db1, Inl err) \<Rightarrow> (db1, output, Some err)
         | (db1, Inr rows) \<Rightarrow>
             (case bindf outputMD rows output of (output1, e) \<Rightarrow> (db1, output1, e)))"

text \<open>
  \<^verbatim>\<open>HasMany[OUT](owner)\<close>. The Go result \<^verbatim>\<open>([]OUT, error)\<close> is \<open>Inr out\<close> or \<open>Inl err\<close>
  (the slice is nil whenever the error is not).
\<close>

definition HasMany ::
  "('e, 'rows) helpers \<Rightarrow> 'rows database \<Rightarrow> 'e \<Rightarrow> 'e \<Rightarrow> 'rows database \<times> (error + 'e list)" where
  "HasMany H db owner zeroOUT =
     (let outSchema = getSchemaFor H zeroOUT
      in case relations (getSchemaFor H owner) (Table outSchema) of
           Some (HasManyRel c0) \<Rightarrow>
             (let property = schemaOf H zeroOUT;
                  c1 = (if HasManyConfig.PropertyTable c0 = ''''
                        then c0\<lparr>HasManyConfig.PropertyTable := Table property\<rparr> else c0);
                  c = (if HasManyConfig.PropertyForeignKey c1 = ''''
                       then c1\<lparr>HasManyConfig.PropertyForeignKey :=
                               Singular H (Table (getSchemaFor H owner)) @ ''_id''\<rparr>
                       else c1);
                  d = dialect (getSchemaFor H owner);
                  ph = (if IncludeIndexInPlaceholder d then PlaceholderChar d @ show_nat 1
                        else PlaceholderChar d);
                  qb = Select_WithArgs
                         (Select_Where (Select_From Select_new (HasManyConfig.PropertyTable c))
                            (Equal H (HasManyConfig.PropertyForeignKey c) ph))
                         [genericGetPKValue H owner]
              in case Select_Build qb of (q, args) \<Rightarrow>
                 if q = '''' then (db, Inl CannotBuildQuery)
                 else (case bindContext (bindMany H) H db zeroOUT Background [] q args of
                         (db1, out, Some err) \<Rightarrow> (db1, Inl err)
                       | (db1, out, None) \<Rightarrow> (db1, Inr out)))
         | _ \<Rightarrow> (db, Inl (WrongConfig ''wrong config passed for HasMany'')))"

text \<open>
  \<^verbatim>\<open>HasOne[PROPERTY](owner)\<close>. It returns \<^verbatim>\<open>*out\<close> together with the error in every
  branch, so the result is the pair.
\<close>

definition HasOne ::
  "('e, 'rows) helpers \<Rightarrow> 'rows database \<Rightarrow> 'e \<Rightarrow> 'e \<Rightarrow> 'rows database \<times> 'e \<times> error option" where
  "HasOne H db owner zeroPROPERTY =
     (let out = zeroPROPERTY;
          property = getSchemaFor H zeroPROPERTY
      in case relations (getSchemaFor H owner) (Table property) of
           Some (HasOneRel c0) \<Rightarrow>
             (let c1 = (if HasOneConfig.PropertyTable c0 = ''''
                        then c0\<lparr>HasOneConfig.PropertyTable := Table property\<rparr> else c0);
                  c = (if HasOneConfig.PropertyForeignKey c1 = ''''
                       then c1\<lparr>HasOneConfig.PropertyForeignKey :=
                               Singular H (Table (getSchemaFor H owner)) @ ''_id''\<rparr>
                       else c1);
                  d = dialect property;
                  ph = (if IncludeIndexInPlaceholder d then PlaceholderChar d @ show_nat 1
                        else PlaceholderChar d);
                  qb = Select_WithArgs
                         (Select_Where (Select_From Select_new (HasOneConfig.PropertyTable c))
                            (Equal H (HasOneConfig.PropertyForeignKey c) ph))
                         [genericGetPKValue H owner]
              in case Select_Build qb of (q, args) \<Rightarrow>
                 if q = '''' then (db, out, Some CannotBuildQuery)
                 else bindContext (bindOne H) H db zeroPROPERTY Background out q args)
         | _ \<Rightarrow> (db, zeroPROPERTY, Some (WrongConfig ''wrong config passed for HasOne'')))"

text \<open>The loop of \<^verbatim>\<open>BelongsTo\<close> over \<^verbatim>\<open>owner.fields\<close>: the last index whose name matches.\<close>

fun ownerIDidx_loop :: "field list \<Rightarrow> string \<Rightarrow> nat \<Rightarrow> nat \<Rightarrow> nat" where
  "ownerIDidx_loop [] key idx ownerIDidx = ownerIDidx"
| "ownerIDidx_loop (f # fs) key idx ownerIDidx =
     ownerIDidx_loop fs key (Suc idx) (if Name f = key then idx else ownerIDidx)"

text \<open>
  \<^verbatim>\<open>BelongsTo[OWNER](property)\<close>. Reading \<^verbatim>\<open>genericValuesOf(property, true)[ownerIDidx]\<close>
  panics when the index is out of range.
\<close>

definition BelongsTo ::
  "('e, 'rows) helpers \<Rightarrow> 'rows database \<Rightarrow> 'e \<Rightarrow> 'e \<Rightarrow> 'rows database \<times> 'e \<times> error option" where
  "BelongsTo H db property zeroOWNER =
     (let out = zeroOWNER;
          owner = getSchemaFor H zeroOWNER
      in case relations (getSchemaFor H property) (Table owner) of
           Some (BelongsToRel c0) \<Rightarrow>
             (let c1 = (if OwnerTable c0 = '''' then c0\<lparr>OwnerTable := Table owner\<rparr> else c0);
                  c2 = (if LocalForeignKey c1 = ''''
                        then c1\<lparr>LocalForeignKey := Singular H (Table owner) @ ''_id''\<rparr> else c1);
                  c = (if ForeignColumnName c2 = '''' then c2\<lparr>ForeignColumnName := ''id''\<rparr>
                       else c2);
                  d = dialect owner;
                  ph = (if IncludeIndexInPlaceholder d then PlaceholderChar d @ show_nat 1
                        else PlaceholderChar d);
                  ownerIDidx = ownerIDidx_loop (schema_fields owner) (LocalForeignKey c) 0 0;
                  vs = genericValuesOf H property True
              in if ownerIDidx < length vs
                 then (let ownerID = vs ! ownerIDidx;
                           qb = Select_WithArgs
                                  (Select_Where (Select_From Select_new (OwnerTable c))
                                     (Equal H (ForeignColumnName c) ph))
                                  [ownerID]
                       in case Select_Build qb of (q, args) \<Rightarrow>
                          bindContext (bindOne H) H db zeroOWNER Background out q args)
                 else (db, out, Some (Panic ''index out of range'')))
         | _ \<Rightarrow> (db, zeroOWNER, Some (WrongConfig ''wrong config passed for BelongsTo'')))"

text \<open>
  The \<^verbatim>\<open>fmt.Sprintf\<close> of \<^verbatim>\<open>BelongsToMany\<close>: six strings put into the format
  \<^verbatim>\<open>select %s from %s where %s IN (select %s from %s where %s = ?)\<close>.
\<close>

definition belongsToManyFormat ::
  "string \<Rightarrow> string \<Rightarrow> string \<Rightarrow> string \<Rightarrow> string \<Rightarrow> string \<Rightarrow> string" where
  "belongsToManyFormat a1 a2 a3 a4 a5 a6 =
     ''select '' @ a1 @ '' from '' @ a2 @ '' where '' @ a3 @ '' IN (select '' @ a4
       @ '' from '' @ a5 @ '' where '' @ a6 @ '' = ?)''"

text \<open>
  \<^verbatim>\<open>BelongsToMany[OWNER](property)\<close>. The error of a wrong config carries the message the
  source has (it names HasMany).
\<close>

definition BelongsToMany ::
  "('e, 'rows) helpers \<Rightarrow> 'rows database \<Rightarrow> 'e \<Rightarrow> 'e \<Rightarrow> 'rows database \<times> (error + 'e list)" where
  "BelongsToMany H db property zeroOWNER =
     (let out = zeroOWNER
      in case relations (getSchemaFor H property) (Table (getSchemaFor H out)) of
           Some (BelongsToManyRel c0) \<Rightarrow>
             (let c1 = (if ForeignLookupColumn c0 = ''''
                        then c0\<lparr>ForeignLookupColumn := pkName H (getSchemaFor H zeroOWNER)\<rparr>
                        else c0);
                  c2 = (if ForeignTable c1 = ''''
                        then c1\<lparr>ForeignTable := Table (getSchemaFor H zeroOWNER)\<rparr> else c1)
              in if IntermediateTable c2 = '''' then (db, Inl CannotInferIntermediateTable)
                 else
                   (let c3 = (if IntermediatePropertyID c2 = ''''
                              then c2\<lparr>IntermediatePropertyID :=
                                      Singular H (Table (getSchemaFor H property)) @ ''_id''\<rparr>
                              else c2);
                        c = (if IntermediateOwnerID c3 = ''''
                             then c3\<lparr>IntermediateOwnerID :=
                                     Singular H (Table (getSchemaFor H out)) @ ''_id''\<rparr>
                             else c3);
                        q = belongsToManyFormat
                              (strings_Join (Columns H (getSchemaFor H out) True) '','')
                              (Table (getSchemaFor H out))
                              (ForeignLookupColumn c)
                              (IntermediateOwnerID c)
                              (IntermediateTable c)
                              (IntermediatePropertyID c);
                        args = [genericGetPKValue H property]
                    in case db_Query db q args of
                         (db1, Inl err) \<Rightarrow> (db1, Inl err)
                       | (db1, Inr rows) \<Rightarrow>
                           (case bindMany H (getSchemaFor H out) rows [] of
                              (output, Some err) \<Rightarrow> (db1, Inl err)
                            | (output, None) \<Rightarrow> (db1, Inr output))))
         | _ \<Rightarrow> (db, Inl (WrongConfig ''wrong config passed for HasMany'')))"

text \<open>
  \<^verbatim>\<open>Add(to, items...)\<close>: the body is \<^verbatim>\<open>return nil\<close>. The database and both arguments are
  threaded through, as for the other operations, so that what the call leaves behind
  can be stated.
\<close>

definition Add ::
  "'rows database \<Rightarrow> 'e \<Rightarrow> 'e list \<Rightarrow> 'rows database \<times> 'e \<times> 'e list \<times> error option" where
  "Add db to items = (db, to, items, None)"

section \<open>Vocabulary of the properties\<close>

text \<open>
  The sections \<^verbatim>\<open>query.SQL()\<close> joins, clause by clause. A clause that was never set
  contributes no section, except the projection, whose default is \<open>defaultProjection\<close>.
\<close>

definition select_sections :: "stringers \<Rightarrow> query \<Rightarrow> string list" where
  "select_sections R q =
     [''SELECT'',
      selectString R (case projected q of None \<Rightarrow> defaultProjection | Some s \<Rightarrow> s)]"

definition where_sections :: "query \<Rightarrow> string list" where
  "where_sections q =
     (if filters q = [] then [] else ''WHERE'' # map whereClause_String (filters q))"

definition orderBy_sections :: "stringers \<Rightarrow> query \<Rightarrow> string list" where
  "orderBy_sections R q =
     (case orderBy q of None \<Rightarrow> [] | Some ob \<Rightarrow> [''ORDER BY'', orderbyString R ob])"

definition groupBy_sections :: "stringers \<Rightarrow> query \<Rightarrow> string list" where
  "groupBy_sections R q =
     (case groupBy q of None \<Rightarrow> [] | Some gb \<Rightarrow> [''GROUP BY'', groupByString R gb])"

definition head_sections :: "stringers \<Rightarrow> query \<Rightarrow> string list" where
  "head_sections R q =
     select_sections R q @ [''FROM '' @ table q] @ where_sections q
       @ orderBy_sections R q @ groupBy_sections R q"

text \<open>
  A chain of connector calls on one \<^verbatim>\<open>*whereClause\<close>, as the fluent interface writes it:
  \<^verbatim>\<open>q.Where(p0...).And(p1...).Or(p2...)\<close> is
  \<open>chain (query_Where q p0) [(ConnAnd, p1), (ConnOr, p2)]\<close>.
\<close>

datatype connector = ConnAnd | ConnOr | ConnNot

fun connect :: "whereRef \<Rightarrow> connector \<times> string list \<Rightarrow> whereRef" where
  "connect w (ConnAnd, parts) = whereClause_And w parts"
| "connect w (ConnOr, parts) = whereClause_Or w parts"
| "connect w (ConnNot, parts) = whereClause_Not w parts"

definition chain :: "whereRef \<Rightarrow> (connector \<times> string list) list \<Rightarrow> whereRef" where
  "chain w cs = foldl connect w cs"

fun connector_word :: "connector \<Rightarrow> string" where
  "connector_word ConnAnd = ''AND''"
| "connector_word ConnOr = ''OR''"
| "connector_word ConnNot = ''NOT''"

text \<open>The fragment a connector call contributes: the connector, a space, the parts.\<close>

definition fragment :: "connector \<times> string list \<Rightarrow> string" where
  "fragment call = connector_word (fst call) @ '' '' @ strings_Join (snd call) '' ''"

text \<open>How often the placeholder marker \<open>ph\<close> of a dialect occurs in a statement text.\<close>

fun count_markers :: "string \<Rightarrow> string \<Rightarrow> nat" where
  "count_markers ph [] = 0"
| "count_markers ph (c # cs) =
     (if ph \<noteq> [] \<and> take (length ph) (c # cs) = ph then 1 else 0) + count_markers ph cs"

section \<open>A small registry for concrete runs\<close>

text \<open>
  Comma-separated column lists for the three clause renderers, an equality helper that
  writes \<^verbatim>\<open>column = value\<close>, a singulariser that drops a final \<^verbatim>\<open>s\<close>, and four tables:
  \<^verbatim>\<open>users(id, name, email)\<close>, \<^verbatim>\<open>posts(id, title)\<close>, \<^verbatim>\<open>comments(id, post_id, body)\<close> and
  \<^verbatim>\<open>tags(id, label)\<close>. An entity is its table name with its field values in
  declaration order, the key first. \<^verbatim>\<open>posts\<close> has many \<^verbatim>\<open>comments\<close> and belongs to many
  \<^verbatim>\<open>tags\<close> through \<^verbatim>\<open>post_tags\<close>; \<^verbatim>\<open>tags\<close> declares the reverse relation
  without an intermediate table.
\<close>

definition plainStringers :: stringers where
  "plainStringers =
     \<lparr>selectString = (\<lambda>s. strings_Join (sel_columns s) '', ''),
      orderbyString = (\<lambda>s. strings_Join (ob_columns s) '', ''),
      groupByString = (\<lambda>s. strings_Join (gb_columns s) '', '')\<rparr>"

definition sqliteDialect :: Dialect where
  "sqliteDialect =
     \<lparr>DriverName = ''sqlite3'', PlaceholderChar = ''?'', IncludeIndexInPlaceholder = False\<rparr>"

definition postgresDialect :: Dialect where
  "postgresDialect =
     \<lparr>DriverName = ''postgres'', PlaceholderChar = ''$'', IncludeIndexInPlaceholder = True\<rparr>"

definition mkField :: "string \<Rightarrow> bool \<Rightarrow> field" where
  "mkField n pk = \<lparr>Name = n, Type = '''', IsPK = pk, Virtual = False\<rparr>"

definition usersSchema :: "Dialect \<Rightarrow> schema" where
  "usersSchema d =
     \<lparr>Table = ''users'',
      schema_fields = [mkField ''id'' True, mkField ''name'' False, mkField ''email'' False],
      relations = Map.empty, dialect = d\<rparr>"

definition postsSchema :: "Dialect \<Rightarrow> schema" where
  "postsSchema d =
     \<lparr>Table = ''posts'',
      schema_fields = [mkField ''id'' True, mkField ''title'' False],
      relations =
        [''comments'' \<mapsto> HasManyRel \<lparr>HasManyConfig.PropertyTable = '''',
                                       HasManyConfig.PropertyForeignKey = ''''\<rparr>,
         ''tags'' \<mapsto> BelongsToManyRel
            \<lparr>IntermediateTable = ''post_tags'', IntermediatePropertyID = '''',
             IntermediateOwnerID = '''', ForeignTable = '''', ForeignLookupColumn = ''''\<rparr>],
      dialect = d\<rparr>"

definition commentsSchema :: "Dialect \<Rightarrow> schema" where
  "commentsSchema d =
     \<lparr>Table = ''comments'',
      schema_fields = [mkField ''id'' True, mkField ''post_id'' False, mkField ''body'' False],
      relations =
        [''posts'' \<mapsto> BelongsToRel
            \<lparr>OwnerTable = '''', LocalForeignKey = '''', ForeignColumnName = ''''\<rparr>],
      dialect = d\<rparr>"

definition tagsSchema :: "Dialect \<Rightarrow> schema" where
  "tagsSchema d =
     \<lparr>Table = ''tags'',
      schema_fields = [mkField ''id'' True, mkField ''label'' False],
      relations =
        [''posts'' \<mapsto> BelongsToManyRel
            \<lparr>IntermediateTable = '''', IntermediatePropertyID = '''',
             IntermediateOwnerID = '''', ForeignTable = '''', ForeignLookupColumn = ''''\<rparr>],
      dialect = d\<rparr>"

type_synonym entity = "string \<times> val list"

definition registry :: "Dialect \<Rightarrow> entity \<Rightarrow> schema" where
  "registry d e =
     (if fst e = ''posts'' then postsSchema d
      else if fst e = ''comments'' then commentsSchema d
      else if fst e = ''tags'' then tagsSchema d
      else usersSchema d)"

definition plainHelpers :: "Dialect \<Rightarrow> (entity, val list list) helpers" where
  "plainHelpers d =
     \<lparr>getSchemaFor = registry d,
      schemaOf = registry d,
      Columns = (\<lambda>s withPK. map Name (filter (\<lambda>f. withPK \<or> \<not> IsPK f) (schema_fields s))),
      pkName = (\<lambda>s. strings_Join (map Name (filter IsPK (schema_fields s))) '',''),
      genericValuesOf = (\<lambda>e withPK. if withPK then snd e else drop 1 (snd e)),
      genericGetPKValue = (\<lambda>e. case snd e of [] \<Rightarrow> VNil | v # _ \<Rightarrow> v),
      genericSetPkValue = (\<lambda>e i. (fst e, VInt i # drop 1 (snd e))),
      Equal = (\<lambda>column v. column @ '' = '' @ v),
      Singular = (\<lambda>w. if w \<noteq> [] \<and> last w = CHR ''s'' then butlast w else w),
      bindMany = (\<lambda>s rows out. (out @ map (Pair (Table s)) rows, None)),
      bindOne = (\<lambda>s rows out. case rows of [] \<Rightarrow> (out, Some (DriverError ''not found''))
                               | r # _ \<Rightarrow> ((Table s, r), None))\<rparr>"

text \<open>A database that has seen no call and answers every call with no rows and key 1.\<close>

definition freshDb :: "val list list database" where
  "freshDb =
     \<lparr>calls = [],
      answer_exec = (\<lambda>c. Inr \<lparr>LastInsertId = Inr 1, RowsAffected = Inr 1\<rparr>),
      answer_query = (\<lambda>c. Inr [])\<rparr>"

definition alice :: entity where
  "alice = (''users'', [VInt 0, VString ''alice'', VString ''a@x.org''])"

definition bob :: entity where
  "bob = (''users'', [VInt 0, VString ''bob'', VString ''b@x.org''])"

definition post7 :: entity where
  "post7 = (''posts'', [VInt 7, VString ''hello''])"

section \<open>Verified properties\<close>

lemmas registry_defs = plainHelpers_def registry_def usersSchema_def postsSchema_def
  commentsSchema_def tagsSchema_def mkField_def sqliteDialect_def postgresDialect_def
  freshDb_def alice_def bob_def post7_def

lemmas builder_defs = Insert_new_def Insert_Table_def Insert_Into_def Insert_Values_def
  Insert_WithArgs_def Insert_Build_def UpdateStmt_new_def Update_Table_def Update_Where_def
  Update_Set_def Update_WithArgs_def Update_Build_def Delete_new_def Delete_Table_def
  Delete_Where_def Delete_WithArgs_def Delete_Build_def Select_new_def Select_From_def
  Select_Where_def Select_WithArgs_def Select_Build_def

subsection \<open>Joining sections\<close>

lemma strings_Join_append:
  "xs \<noteq> [] \<Longrightarrow> ys \<noteq> [] \<Longrightarrow>
   strings_Join (xs @ ys) sep = strings_Join xs sep @ sep @ strings_Join ys sep"
proof (induction xs sep rule: strings_Join.induct)
  case (1 sep)
  then show ?case by simp
next
  case (2 x sep)
  then show ?case by (cases ys) simp_all
next
  case (3 x y ys sep)
  then show ?case by simp
qed

lemma SQL_fails: "table q = '''' \<Longrightarrow> snd (query_SQL R q) = ('''', Some TableNameEmpty)"
  by (simp add: query_SQL_def Let_def)

lemma SQL_sections:
  "table q \<noteq> '''' \<Longrightarrow>
   snd (query_SQL R q) =
     (strings_Join (head_sections R q @ map joinClause_String (joins q)) '' '', None)"
  by (simp add: query_SQL_def Let_def head_sections_def select_sections_def where_sections_def
      orderBy_sections_def groupBy_sections_def split: option.splits)

lemma head_sections_nonempty: "head_sections R q \<noteq> []"
  by (simp add: head_sections_def select_sections_def)

lemma wrappers_fail:
  assumes "table q = ''''"
  shows "query_Exec R exec q db args = (fst (query_SQL R q), db, Inl TableNameEmpty)"
    and "query_ExecContext R exec q c db args = (fst (query_SQL R q), db, Inl TableNameEmpty)"
    and "query_Bind R bind q db v args = (fst (query_SQL R q), db, v, Some TableNameEmpty)"
    and "query_BindContext R bind q c db v args
           = (fst (query_SQL R q), db, v, Some TableNameEmpty)"
  using assms
  by (simp_all add: query_Exec_def query_ExecContext_def query_Bind_def query_BindContext_def
      query_SQL_def Let_def)

subsection \<open>Chains of connector calls\<close>

lemma connect_appends:
  "connect (q, i) call =
     (q\<lparr>filters := (filters q)[i := (filters q ! i)\<lparr>conds :=
           conds (filters q ! i) @ [fragment call]\<rparr>]\<rparr>, i)"
  by (cases call; cases "fst call")
     (auto simp: whereClause_And_def whereClause_Or_def whereClause_Not_def fragment_def)

lemma chain_appends:
  "i < length (filters q) \<Longrightarrow>
   chain (q, i) cs =
     (q\<lparr>filters := (filters q)[i := (filters q ! i)\<lparr>conds :=
           conds (filters q ! i) @ map fragment cs\<rparr>]\<rparr>, i)"
  unfolding chain_def
proof (induction cs arbitrary: q)
  case Nil
  then show ?case by simp
next
  case (Cons c cs)
  show ?case using Cons.prems
    by (simp add: connect_appends Cons.IH)
qed

lemma chain_Where:
  "chain (query_Where q p0) cs =
     (q\<lparr>filters := filters q @ [\<lparr>conds = strings_Join p0 '' '' # map fragment cs\<rparr>]\<rparr>,
      length (filters q))"
  by (simp add: query_Where_def chain_appends)

text \<open>
  C4. A WHERE clause started by \<^verbatim>\<open>Where(p0...)\<close> and extended by any chain of \<^verbatim>\<open>And\<close>,
  \<^verbatim>\<open>Or\<close> and \<^verbatim>\<open>Not\<close> calls renders as the first fragment without prefix, followed by one
  fragment per call, each prefixed with the connector of that call, all joined by single
  spaces. On a fresh query with a table, \<^verbatim>\<open>SQL()\<close> puts exactly this text after
  \<^verbatim>\<open>WHERE\<close>.
\<close>

theorem where_chain_rendering:
  "whereClause_String
     (filters (whereClause_Query (chain (query_Where q p0) cs))
        ! snd (chain (query_Where q p0) cs))
     = strings_Join (strings_Join p0 '' '' # map fragment cs) '' ''
   \<and> (t \<noteq> '''' \<longrightarrow>
        snd (query_SQL R (whereClause_Query
               (chain (query_Where (query_Table NewQuery t) p0) cs)))
        = (''SELECT '' @ selectString R defaultProjection @ '' FROM '' @ t @ '' WHERE ''
             @ strings_Join (strings_Join p0 '' '' # map fragment cs) '' '', None))"
proof (intro conjI impI)
  show "whereClause_String
     (filters (whereClause_Query (chain (query_Where q p0) cs))
        ! snd (chain (query_Where q p0) cs))
     = strings_Join (strings_Join p0 '' '' # map fragment cs) '' ''"
    by (simp add: chain_Where whereClause_Query_def whereClause_String_def)
next
  assume "t \<noteq> ''''"
  then show "snd (query_SQL R (whereClause_Query
               (chain (query_Where (query_Table NewQuery t) p0) cs)))
        = (''SELECT '' @ selectString R defaultProjection @ '' FROM '' @ t @ '' WHERE ''
             @ strings_Join (strings_Join p0 '' '' # map fragment cs) '' '', None)"
    by (simp add: chain_Where whereClause_Query_def query_SQL_def query_Table_def NewQuery_def
        whereClause_String_def Let_def)
qed

theorem where_chain_rendering_witness:
  "''t'' \<noteq> ''''
   \<and> snd (query_SQL plainStringers (whereClause_Query
            (whereClause_And (query_Where (query_Table NewQuery ''t'') [''y = ?'']) [''x = ?''])))
     = (''SELECT * FROM t WHERE y = ? AND x = ?'', None)"
  using where_chain_rendering
    [of NewQuery "[''y = ?'']" "[(ConnAnd, [''x = ?''])]" "''t''" plainStringers]
  by (simp add: chain_def fragment_def plainStringers_def defaultProjection_def)

text \<open>
  C5. When a table is set and at least one join was declared, the text \<^verbatim>\<open>SQL()\<close> returns is
  the text of the SELECT, FROM, WHERE, ORDER BY and GROUP BY sections, then a space, then
  the joins in the order of \<^verbatim>\<open>q.joins\<close>, space-separated; each join reads
  \<^verbatim>\<open><TYPE> JOIN <table> ON <condition>\<close>; and each of the four join methods appends its
  clause at the end of \<^verbatim>\<open>q.joins\<close>, so that order is declaration order.
\<close>

theorem joins_rendered_last:
  assumes "table q \<noteq> ''''" and "joins q \<noteq> []"
  shows "snd (query_SQL R q) =
           (strings_Join (head_sections R q) '' '' @ '' '' @
            strings_Join (map joinClause_String (joins q)) '' '', None)
       \<and> (\<forall>j \<in> set (joins q).
             joinClause_String j = joinType j @ '' JOIN '' @ jc_table j @ '' ON '' @ jc_on j)
       \<and> joins (fst (query_InnerJoin q t))
           = joins q @ [\<lparr>jc_table = t, joinType = ''INNER'', jc_on = ''''\<rparr>]
       \<and> joins (fst (query_RightJoin q t))
           = joins q @ [\<lparr>jc_table = t, joinType = ''RIGHT'', jc_on = ''''\<rparr>]
       \<and> joins (fst (query_LeftJoin q t))
           = joins q @ [\<lparr>jc_table = t, joinType = ''LEFT'', jc_on = ''''\<rparr>]
       \<and> joins (fst (query_FullOuterJoin q t))
           = joins q @ [\<lparr>jc_table = t, joinType = ''FULL OUTER'', jc_on = ''''\<rparr>]"
  using assms
  by (simp add: SQL_sections strings_Join_append head_sections_nonempty joinClause_String_def
      query_InnerJoin_def query_RightJoin_def query_LeftJoin_def query_FullOuterJoin_def)

theorem joins_rendered_last_witness:
  "table \<lparr>table = ''t'', projected = None, filters = [\<lparr>conds = [''a = ?'']\<rparr>],
      orderBy = Some \<lparr>ob_columns = [''a''], ob_desc = False\<rparr>,
      groupBy = Some \<lparr>gb_columns = [''b'']\<rparr>,
      joins = [\<lparr>jc_table = ''u'', joinType = ''INNER'', jc_on = ''u.id = t.uid''\<rparr>,
               \<lparr>jc_table = ''p'', joinType = ''LEFT'', jc_on = ''p.id = t.pid''\<rparr>]\<rparr> \<noteq> ''''
   \<and> joins \<lparr>table = ''t'', projected = None, filters = [\<lparr>conds = [''a = ?'']\<rparr>],
      orderBy = Some \<lparr>ob_columns = [''a''], ob_desc = False\<rparr>,
      groupBy = Some \<lparr>gb_columns = [''b'']\<rparr>,
      joins = [\<lparr>jc_table = ''u'', joinType = ''INNER'', jc_on = ''u.id = t.uid''\<rparr>,
               \<lparr>jc_table = ''p'', joinType = ''LEFT'', jc_on = ''p.id = t.pid''\<rparr>]\<rparr> \<noteq> []
   \<and> snd (query_SQL plainStringers
       \<lparr>table = ''t'', projected = None, filters = [\<lparr>conds = [''a = ?'']\<rparr>],
        orderBy = Some \<lparr>ob_columns = [''a''], ob_desc = False\<rparr>,
        groupBy = Some \<lparr>gb_columns = [''b'']\<rparr>,
        joins = [\<lparr>jc_table = ''u'', joinType = ''INNER'', jc_on = ''u.id = t.uid''\<rparr>,
                 \<lparr>jc_table = ''p'', joinType = ''LEFT'', jc_on = ''p.id = t.pid''\<rparr>]\<rparr>)
     = (''SELECT * FROM t WHERE a = ? ORDER BY a GROUP BY b INNER JOIN u ON u.id = t.uid LEFT JOIN p ON p.id = t.pid'',
        None)"
  using joins_rendered_last
    [of "\<lparr>table = ''t'', projected = None, filters = [\<lparr>conds = [''a = ?'']\<rparr>],
        orderBy = Some \<lparr>ob_columns = [''a''], ob_desc = False\<rparr>,
        groupBy = Some \<lparr>gb_columns = [''b'']\<rparr>,
        joins = [\<lparr>jc_table = ''u'', joinType = ''INNER'', jc_on = ''u.id = t.uid''\<rparr>,
                 \<lparr>jc_table = ''p'', joinType = ''LEFT'', jc_on = ''p.id = t.pid''\<rparr>]\<rparr>"
       plainStringers "''x''"]
  by (simp add: head_sections_def select_sections_def where_sections_def orderBy_sections_def
      groupBy_sections_def joinClause_String_def plainStringers_def defaultProjection_def
      whereClause_String_def)

text \<open>
  The claim C3 as it is written does not hold for the projection: a query whose
  projection was never set does not lose its SELECT clause, it is rendered with the
  default projection \<^verbatim>\<open>*\<close>. Here the text is \<^verbatim>\<open>SELECT * FROM t\<close>, not \<^verbatim>\<open>FROM t\<close>.
\<close>

theorem omitted_projection_is_rendered:
  "projected (query_Table NewQuery ''t'') = None
   \<and> snd (query_SQL plainStringers (query_Table NewQuery ''t'')) = (''SELECT * FROM t'', None)
   \<and> fst (snd (query_SQL plainStringers (query_Table NewQuery ''t''))) \<noteq> ''FROM t''"
  by (simp add: query_SQL_def query_Table_def NewQuery_def plainStringers_def
      defaultProjection_def Let_def)

text \<open>
  C3, amended. With an empty table name \<^verbatim>\<open>SQL()\<close> returns the empty string and an error,
  and \<^verbatim>\<open>Exec\<close>, \<^verbatim>\<open>ExecContext\<close>, \<^verbatim>\<open>Bind\<close> and \<^verbatim>\<open>BindContext\<close> return that error with the
  database (and the destination) as they received them, whatever \<^verbatim>\<open>exec\<close> and \<^verbatim>\<open>_bind\<close>
  would do. With a table name \<^verbatim>\<open>SQL()\<close> never fails: its text is the sections joined by
  spaces, where an unset WHERE, ORDER BY or GROUP BY contributes no section, and an unset
  projection contributes \<^verbatim>\<open>SELECT\<close> with the default projection \<^verbatim>\<open>*\<close>.
\<close>

theorem empty_table_is_the_only_failure:
  "(table q = '''' \<longrightarrow>
      snd (query_SQL R q) = ('''', Some TableNameEmpty)
    \<and> query_Exec R exec q db args = (fst (query_SQL R q), db, Inl TableNameEmpty)
    \<and> query_ExecContext R exec q c db args = (fst (query_SQL R q), db, Inl TableNameEmpty)
    \<and> query_Bind R bind q db v args = (fst (query_SQL R q), db, v, Some TableNameEmpty)
    \<and> query_BindContext R bind q c db v args
        = (fst (query_SQL R q), db, v, Some TableNameEmpty))
   \<and> (table q \<noteq> '''' \<longrightarrow>
      snd (query_SQL R q)
        = (strings_Join (select_sections R q @ [''FROM '' @ table q] @ where_sections q
             @ orderBy_sections R q @ groupBy_sections R q
             @ map joinClause_String (joins q)) '' '', None)
    \<and> (filters q = [] \<longrightarrow> where_sections q = [])
    \<and> (orderBy q = None \<longrightarrow> orderBy_sections R q = [])
    \<and> (groupBy q = None \<longrightarrow> groupBy_sections R q = [])
    \<and> (projected q = None \<longrightarrow>
          select_sections R q = [''SELECT'', selectString R defaultProjection]))"
proof (intro conjI impI)
  assume e: "table q = ''''"
  show "snd (query_SQL R q) = ('''', Some TableNameEmpty)"
    using e by (rule SQL_fails)
  show "query_Exec R exec q db args = (fst (query_SQL R q), db, Inl TableNameEmpty)"
    using e by (rule wrappers_fail)
  show "query_ExecContext R exec q c db args = (fst (query_SQL R q), db, Inl TableNameEmpty)"
    using e by (rule wrappers_fail)
  show "query_Bind R bind q db v args = (fst (query_SQL R q), db, v, Some TableNameEmpty)"
    using e by (rule wrappers_fail)
  show "query_BindContext R bind q c db v args
        = (fst (query_SQL R q), db, v, Some TableNameEmpty)"
    using e by (rule wrappers_fail)
next
  assume "table q \<noteq> ''''"
  then show "snd (query_SQL R q)
        = (strings_Join (select_sections R q @ [''FROM '' @ table q] @ where_sections q
             @ orderBy_sections R q @ groupBy_sections R q
             @ map joinClause_String (joins q)) '' '', None)"
    by (simp add: SQL_sections head_sections_def)
next
  assume "filters q = []"
  then show "where_sections q = []" by (simp add: where_sections_def)
next
  assume "orderBy q = None"
  then show "orderBy_sections R q = []" by (simp add: orderBy_sections_def)
next
  assume "groupBy q = None"
  then show "groupBy_sections R q = []" by (simp add: groupBy_sections_def)
next
  assume "projected q = None"
  then show "select_sections R q = [''SELECT'', selectString R defaultProjection]"
    by (simp add: select_sections_def)
qed

theorem empty_table_is_the_only_failure_witness:
  "table NewQuery = ''''
   \<and> snd (query_SQL plainStringers NewQuery) = ('''', Some TableNameEmpty)
   \<and> snd (query_Exec plainStringers (\<lambda>c n s a. (Suc n, Inr s)) NewQuery (0::nat) [VInt 1])
       = (0, Inl TableNameEmpty)
   \<and> snd (query_Bind plainStringers (\<lambda>c n v s a. (Suc n, s, None)) NewQuery (0::nat) ''dest''
            [VInt 1])
       = (0, ''dest'', Some TableNameEmpty)
   \<and> table (query_Table NewQuery ''t'') \<noteq> ''''
   \<and> filters (query_Table NewQuery ''t'') = []
   \<and> orderBy (query_Table NewQuery ''t'') = None
   \<and> groupBy (query_Table NewQuery ''t'') = None
   \<and> projected (query_Table NewQuery ''t'') = None
   \<and> snd (query_SQL plainStringers (query_Table NewQuery ''t'')) = (''SELECT * FROM t'', None)"
  using empty_table_is_the_only_failure
      [of NewQuery plainStringers "\<lambda>c n s a. (Suc n, Inr s)" "0::nat" "[VInt 1]" Background
          "\<lambda>c n v s a. (Suc n, s, None)" "''dest''"]
    empty_table_is_the_only_failure
      [of "query_Table NewQuery ''t''" plainStringers "\<lambda>c n s a. (Suc n, Inr s)" "0::nat"
          "[VInt 1]" Background "\<lambda>c n v s a. (Suc n, s, None)" "''dest''"]
  by (simp add: NewQuery_def query_Table_def select_sections_def where_sections_def
      orderBy_sections_def groupBy_sections_def plainStringers_def defaultProjection_def)

subsection \<open>Statements built by orm.go\<close>

text \<open>
  C1 at a concrete input. \<^verbatim>\<open>InsertAll\<close> of two \<^verbatim>\<open>users\<close> entities with two non-key columns:
  the statement text carries four placeholder markers, the argument list the builder
  returns has two elements (one slice per entity), and \<^verbatim>\<open>Exec\<close> receives that list as a
  single argument. \<^verbatim>\<open>Insert\<close> of one such entity sends two markers with two arguments.
\<close>

theorem InsertAll_args_fall_short:
  "calls (fst (InsertAll (plainHelpers sqliteDialect) freshDb [alice, bob])) =
     [CallExec ''INSERT INTO users (name,email) VALUES (?,?),(?,?)''
        [VSlice [VSlice [VString ''alice'', VString ''a@x.org''],
                 VSlice [VString ''bob'', VString ''b@x.org'']]]]
   \<and> count_markers ''?'' ''INSERT INTO users (name,email) VALUES (?,?),(?,?)'' = 4
   \<and> length [VSlice [VString ''alice'', VString ''a@x.org''],
              VSlice [VString ''bob'', VString ''b@x.org'']] = 2
   \<and> calls (fst (Insert (plainHelpers sqliteDialect) freshDb alice)) =
     [CallExec ''INSERT INTO users (name,email) VALUES (?,?)''
        [VString ''alice'', VString ''a@x.org'']]
   \<and> count_markers ''?'' ''INSERT INTO users (name,email) VALUES (?,?)'' = 2"
  by (simp add: InsertAll_def Insert_def registry_defs builder_defs db_Exec_def MySQL_def Let_def)

lemma toMap_loop_zip:
  "length vs = i + length cols \<Longrightarrow>
   toMap_loop cols vs i kvs = Inr (kvs @ zip cols (drop i vs))"
proof (induction cols arbitrary: i kvs)
  case Nil
  then show ?case by simp
next
  case (Cons col cols)
  then have lt: "i < length vs" by simp
  from Cons.prems have "length vs = Suc i + length cols" by simp
  then have "toMap_loop cols vs (Suc i) (kvs @ [(col, vs ! i)])
           = Inr ((kvs @ [(col, vs ! i)]) @ zip cols (drop (Suc i) vs))"
    by (rule Cons.IH)
  moreover have "drop i vs = vs ! i # drop (Suc i) vs"
    using lt by (simp add: Cons_nth_drop_Suc)
  ultimately show ?case using lt by simp
qed

lemma toMap_zip:
  "length (genericValuesOf H obj withPK) = length (Columns H (getSchemaFor H obj) withPK) \<Longrightarrow>
   toMap H obj withPK
     = Inr (zip (Columns H (getSchemaFor H obj) withPK) (genericValuesOf H obj withPK))"
  by (simp add: toMap_def toMap_loop_zip)

lemma Update_loop_numbered:
  "IncludeIndexInPlaceholder d \<Longrightarrow>
   Update_loop d kvs n u =
     u\<lparr>upd_set := upd_set u
          @ zip (map fst kvs) (map (\<lambda>k. PlaceholderChar d @ show_nat k) [n..<n + length kvs]),
       upd_args := upd_args u @ map snd kvs\<rparr>"
proof (induction kvs arbitrary: n u)
  case Nil
  then show ?case by simp
next
  case (Cons kv kvs)
  obtain k v where kv: "kv = (k, v)" by (cases kv)
  have "[n..<n + length (kv # kvs)] = n # [Suc n..<Suc n + length kvs]"
    by (subst upt_rec) simp
  then show ?case
    using Cons.prems by (simp add: kv Cons.IH Update_Set_def Update_WithArgs_def)
qed

lemma Update_statement:
  assumes numbered: "IncludeIndexInPlaceholder d"
    and wf: "length vs = length cols"
  shows "Update_WithArgs
           (Update_loop d (zip cols vs) 2 (Update_Where (Update_Table UpdateStmt_new t) w)) [pk]
         = \<lparr>upd_table = t, upd_where = w,
            upd_set = zip cols (map (\<lambda>k. PlaceholderChar d @ show_nat k) [2..<length cols + 2]),
            upd_args = vs @ [pk]\<rparr>"
proof -
  have f: "map fst (zip cols vs) = cols" and g: "map snd (zip cols vs) = vs"
    using wf by simp_all
  have up: "[2..<2 + length cols] = [2..<length cols + 2]"
    by (simp only: add.commute)
  have "Update_loop d (zip cols vs) 2 (Update_Where (Update_Table UpdateStmt_new t) w)
        = \<lparr>upd_table = t, upd_where = w,
            upd_set = zip cols (map (\<lambda>k. PlaceholderChar d @ show_nat k) [2..<length cols + 2]),
            upd_args = vs\<rparr>"
    unfolding Update_loop_numbered [OF numbered] f g
    using wf by (simp only: length_zip min.idem up)
      (simp add: Update_Where_def Update_Table_def UpdateStmt_new_def)
  then show ?thesis by (simp add: Update_WithArgs_def)
qed

text \<open>
  C2. For an entity whose dialect numbers its placeholders and whose \<open>N\<close> non-key columns
  have one value each, \<^verbatim>\<open>Update\<close> makes exactly one \<^verbatim>\<open>Exec\<close> call, with the text and the
  arguments that \<^verbatim>\<open>Build\<close> returns for this statement: the WHERE condition compares the
  key column with placeholder number 1, the SET list pairs the columns, in the order of
  \<^verbatim>\<open>Columns(false)\<close>, with placeholders number 2 to \<open>N + 1\<close>, and the arguments are the
  column values in that order followed by the key value.
\<close>

theorem Update_placeholder_numbering:
  assumes numbered: "IncludeIndexInPlaceholder (dialect (getSchemaFor H obj))"
    and wf: "length (genericValuesOf H obj False) = length (Columns H (getSchemaFor H obj) False)"
  shows "let s = getSchemaFor H obj;
             pc = PlaceholderChar (dialect s);
             cols = Columns H s False;
             u = \<lparr>upd_table = Table s,
                  upd_where = Equal H (pkName H s) (pc @ ''1''),
                  upd_set = zip cols (map (\<lambda>k. pc @ show_nat k) [2..<length cols + 2]),
                  upd_args = genericValuesOf H obj False @ [genericGetPKValue H obj]\<rparr>
         in fst (Update H db obj)
              = db\<lparr>calls := calls db @ [CallExec (fst (Update_Build u)) (snd (Update_Build u))]\<rparr>
          \<and> (Table s \<noteq> '''' \<longrightarrow>
               snd (Update_Build u) = genericValuesOf H obj False @ [genericGetPKValue H obj])"
proof -
  define s where "s = getSchemaFor H obj"
  define u where "u = \<lparr>upd_table = Table s,
      upd_where = Equal H (pkName H s) (PlaceholderChar (dialect s) @ ''1''),
      upd_set = zip (Columns H s False)
                  (map (\<lambda>k. PlaceholderChar (dialect s) @ show_nat k)
                     [2..<length (Columns H s False) + 2]),
      upd_args = genericValuesOf H obj False @ [genericGetPKValue H obj]\<rparr>"
  have stmt: "Update_WithArgs
           (Update_loop (dialect s) (zip (Columns H s False) (genericValuesOf H obj False)) 2
              (Update_Where (Update_Table UpdateStmt_new (Table s))
                 (Equal H (pkName H s) (PlaceholderChar (dialect s) @ ''1''))))
           [genericGetPKValue H obj] = u"
    unfolding u_def using numbered wf by (intro Update_statement) (simp_all add: s_def)
  have run: "fst (Update H db obj)
        = db\<lparr>calls := calls db @ [CallExec (fst (Update_Build u)) (snd (Update_Build u))]\<rparr>"
    using numbered
    by (simp add: Update_def toMap_zip [OF wf] Let_def s_def [symmetric] stmt db_Exec_def
        split: prod.splits sum.splits)
  have args: "Table s \<noteq> '''' \<Longrightarrow>
      snd (Update_Build u) = genericValuesOf H obj False @ [genericGetPKValue H obj]"
    by (simp add: Update_Build_def u_def)
  show ?thesis
    unfolding Let_def s_def [symmetric] u_def [symmetric]
    using run args by blast
qed

theorem Update_placeholder_numbering_witness:
  "IncludeIndexInPlaceholder (dialect (getSchemaFor (plainHelpers postgresDialect) alice))
   \<and> length (genericValuesOf (plainHelpers postgresDialect) alice False)
       = length (Columns (plainHelpers postgresDialect)
                   (getSchemaFor (plainHelpers postgresDialect) alice) False)
   \<and> fst (Update (plainHelpers postgresDialect) freshDb alice)
       = freshDb\<lparr>calls := [CallExec ''UPDATE users SET name=$2,email=$3 WHERE id = $1''
            [VString ''alice'', VString ''a@x.org'', VInt 0]]\<rparr>"
proof -
  have s: "getSchemaFor (plainHelpers postgresDialect) alice = usersSchema postgresDialect"
    by (simp add: plainHelpers_def registry_def alice_def)
  have cols: "Columns (plainHelpers postgresDialect) (usersSchema postgresDialect) False
       = [''name'', ''email'']"
    by (simp add: plainHelpers_def usersSchema_def mkField_def)
  have vs: "genericValuesOf (plainHelpers postgresDialect) alice False
       = [VString ''alice'', VString ''a@x.org'']"
    by (simp add: plainHelpers_def alice_def)
  have phs: "map (\<lambda>k. ''$'' @ show_nat k) [2..<length [''name'', ''email''] + 2]
       = [''$2'', ''$3'']"
    by (simp add: show_nat.simps upt_conv_Cons)
  have pk: "pkName (plainHelpers postgresDialect) (usersSchema postgresDialect) = ''id''"
    by (simp add: plainHelpers_def usersSchema_def mkField_def)
  have log: "calls freshDb = []"
    by (simp add: freshDb_def)
  have a: "IncludeIndexInPlaceholder (dialect (getSchemaFor (plainHelpers postgresDialect) alice))"
    by (simp add: s) (simp add: usersSchema_def postgresDialect_def)
  have b: "length (genericValuesOf (plainHelpers postgresDialect) alice False)
       = length (Columns (plainHelpers postgresDialect)
                   (getSchemaFor (plainHelpers postgresDialect) alice) False)"
    by (simp add: s cols vs)
  have d: "PlaceholderChar (dialect (usersSchema postgresDialect)) = ''$''"
    and t: "Table (usersSchema postgresDialect) = ''users''"
    by (simp_all add: usersSchema_def postgresDialect_def)
  have e: "Equal (plainHelpers postgresDialect) ''id'' ''$1'' = ''id = $1''"
    and k: "genericGetPKValue (plainHelpers postgresDialect) alice = VInt 0"
    by (simp_all add: plainHelpers_def alice_def)
  note th = Update_placeholder_numbering
    [OF a b, of freshDb, unfolded Let_def s cols vs pk d t, unfolded phs log]
  from th have "fst (Update (plainHelpers postgresDialect) freshDb alice)
       = freshDb\<lparr>calls := [CallExec ''UPDATE users SET name=$2,email=$3 WHERE id = $1''
            [VString ''alice'', VString ''a@x.org'', VInt 0]]\<rparr>"
    by (simp add: e k Update_Build_def)
  with a b show ?thesis by blast
qed

subsection \<open>Relations\<close>

lemma show_nat_1: "show_nat 1 = ''1''"
  by (simp add: show_nat.simps)

lemma bindContext_calls:
  "calls (fst (bindContext bindf H db z c out q args)) = calls db @ [CallQueryContext c q args]"
  by (simp add: bindContext_def db_QueryContext_def Let_def split: prod.splits sum.splits)

lemma Select_Build_table:
  "sst_from s \<noteq> '''' \<Longrightarrow> fst (Select_Build s) \<noteq> '''' \<and> snd (Select_Build s) = sst_args s"
  by (simp add: Select_Build_def)

lemma Select_Build_no_table: "sst_from s = '''' \<Longrightarrow> Select_Build s = ('''', [])"
  by (simp add: Select_Build_def)

lemma query_then_bind_calls:
  assumes "q \<noteq> ''''"
  shows "calls (fst (case (q, args) of (q, args) \<Rightarrow>
        if q = '''' then (db, Inl CannotBuildQuery)
        else (case bindContext bindf H db z Background out q args of
                (db1, out, Some err) \<Rightarrow> (db1, Inl err)
              | (db1, out, None) \<Rightarrow> (db1, Inr out))))
     = calls db @ [CallQueryContext Background q args]"
proof -
  obtain db1 out1 e where r: "bindContext bindf H db z Background out q args = (db1, out1, e)"
    by (cases "bindContext bindf H db z Background out q args")
  have "calls (fst (bindContext bindf H db z Background out q args))
          = calls db @ [CallQueryContext Background q args]"
    by (rule bindContext_calls)
  then have "calls db1 = calls db @ [CallQueryContext Background q args]"
    by (simp add: r)
  then show ?thesis using assms by (cases e) (simp_all add: r)
qed

lemma HasMany_run:
  assumes rel: "relations (getSchemaFor H owner) (Table (getSchemaFor H zeroOUT))
                  = Some (HasManyRel c)"
  shows "HasMany H db owner zeroOUT =
    (let tbl = (if HasManyConfig.PropertyTable c = '''' then Table (schemaOf H zeroOUT)
                    else HasManyConfig.PropertyTable c);
         fk = (if HasManyConfig.PropertyForeignKey c = ''''
                   then Singular H (Table (getSchemaFor H owner)) @ ''_id''
                   else HasManyConfig.PropertyForeignKey c);
         d = dialect (getSchemaFor H owner);
         ph = (if IncludeIndexInPlaceholder d then PlaceholderChar d @ ''1''
                   else PlaceholderChar d);
         qb = \<lparr>sst_columns = [], sst_from = tbl, sst_where = Equal H fk ph,
                   sst_args = [genericGetPKValue H owner]\<rparr>
     in case Select_Build qb of (q, args) \<Rightarrow>
        if q = '''' then (db, Inl CannotBuildQuery)
        else (case bindContext (bindMany H) H db zeroOUT Background [] q args of
                (db1, out, Some err) \<Rightarrow> (db1, Inl err)
              | (db1, out, None) \<Rightarrow> (db1, Inr out)))"
  unfolding HasMany_def Let_def rel option.case RelationConfig.case show_nat_1
    Select_WithArgs_def Select_Where_def Select_From_def Select_new_def
  by (cases c) simp

text \<open>
  C6. When the owner's schema stores a \<^verbatim>\<open>HasManyConfig\<close> for the target table, \<^verbatim>\<open>HasMany\<close>
  queries the table \<^verbatim>\<open>PropertyTable\<close>, or the target schema's table when that field is
  empty, for rows whose column \<^verbatim>\<open>PropertyForeignKey\<close>, or the singular of the owner's table
  name followed by \<^verbatim>\<open>_id\<close> when that field is empty, equals the placeholder; the one
  argument is the owner's key. (Only a table name that is still empty after defaulting
  stops the call before the query.)
\<close>

theorem HasMany_defaults:
  assumes rel: "relations (getSchemaFor H owner) (Table (getSchemaFor H zeroOUT))
                  = Some (HasManyRel c)"
  shows "let tbl = (if HasManyConfig.PropertyTable c = '''' then Table (schemaOf H zeroOUT)
                    else HasManyConfig.PropertyTable c);
             fk = (if HasManyConfig.PropertyForeignKey c = ''''
                   then Singular H (Table (getSchemaFor H owner)) @ ''_id''
                   else HasManyConfig.PropertyForeignKey c);
             d = dialect (getSchemaFor H owner);
             ph = (if IncludeIndexInPlaceholder d then PlaceholderChar d @ ''1''
                   else PlaceholderChar d);
             qb = \<lparr>sst_columns = [], sst_from = tbl, sst_where = Equal H fk ph,
                   sst_args = [genericGetPKValue H owner]\<rparr>
         in (tbl \<noteq> '''' \<longrightarrow>
               calls (fst (HasMany H db owner zeroOUT))
                 = calls db @ [CallQueryContext Background (fst (Select_Build qb))
                                 [genericGetPKValue H owner]])
          \<and> (tbl = '''' \<longrightarrow> HasMany H db owner zeroOUT = (db, Inl CannotBuildQuery))"
proof -
  define tbl where "tbl = (if HasManyConfig.PropertyTable c = '''' then Table (schemaOf H zeroOUT)
                    else HasManyConfig.PropertyTable c)"
  define qb where "qb = \<lparr>sst_columns = [], sst_from = tbl,
      sst_where = Equal H (if HasManyConfig.PropertyForeignKey c = ''''
                   then Singular H (Table (getSchemaFor H owner)) @ ''_id''
                   else HasManyConfig.PropertyForeignKey c)
                 (if IncludeIndexInPlaceholder (dialect (getSchemaFor H owner))
                  then PlaceholderChar (dialect (getSchemaFor H owner)) @ ''1''
                  else PlaceholderChar (dialect (getSchemaFor H owner))),
      sst_args = [genericGetPKValue H owner]\<rparr>"
  have run: "HasMany H db owner zeroOUT =
     (case Select_Build qb of (q, args) \<Rightarrow>
        if q = '''' then (db, Inl CannotBuildQuery)
        else (case bindContext (bindMany H) H db zeroOUT Background [] q args of
                (db1, out, Some err) \<Rightarrow> (db1, Inl err)
              | (db1, out, None) \<Rightarrow> (db1, Inr out)))"
    unfolding HasMany_run [OF rel] Let_def qb_def tbl_def ..
  have frm: "sst_from qb = tbl" and args: "sst_args qb = [genericGetPKValue H owner]"
    by (simp_all add: qb_def)
  have a: "calls (fst (HasMany H db owner zeroOUT))
             = calls db @ [CallQueryContext Background (fst (Select_Build qb))
                             [genericGetPKValue H owner]]" if "tbl \<noteq> ''''"
  proof -
    from that frm have ne: "fst (Select_Build qb) \<noteq> ''''"
      and sn: "snd (Select_Build qb) = [genericGetPKValue H owner]"
      using Select_Build_table [of qb] args by simp_all
    obtain q ar where b: "Select_Build qb = (q, ar)" by (cases "Select_Build qb")
    with ne sn have qn: "q \<noteq> ''''" and ar: "ar = [genericGetPKValue H owner]"
      by simp_all
    show ?thesis
      unfolding run b ar fst_conv by (rule query_then_bind_calls [OF qn])
  qed
  have b: "HasMany H db owner zeroOUT = (db, Inl CannotBuildQuery)" if "tbl = ''''"
    unfolding run using that frm by (simp add: Select_Build_no_table)
  show ?thesis
    unfolding Let_def tbl_def [symmetric] qb_def [symmetric]
    using a b by blast
qed

theorem HasMany_defaults_witness:
  "relations (getSchemaFor (plainHelpers sqliteDialect) post7)
     (Table (getSchemaFor (plainHelpers sqliteDialect) (''comments'', [])))
     = Some (HasManyRel \<lparr>HasManyConfig.PropertyTable = '''',
                          HasManyConfig.PropertyForeignKey = ''''\<rparr>)
   \<and> Table (getSchemaFor (plainHelpers sqliteDialect) post7) = ''posts''
   \<and> calls (fst (HasMany (plainHelpers sqliteDialect) freshDb post7 (''comments'', [])))
     = [CallQueryContext Background ''SELECT * FROM comments WHERE post_id = ?'' [VInt 7]]"
proof -
  have rel: "relations (getSchemaFor (plainHelpers sqliteDialect) post7)
     (Table (getSchemaFor (plainHelpers sqliteDialect) (''comments'', [])))
     = Some (HasManyRel \<lparr>HasManyConfig.PropertyTable = '''',
                          HasManyConfig.PropertyForeignKey = ''''\<rparr>)"
    by (simp add: registry_defs)
  have t: "Table (getSchemaFor (plainHelpers sqliteDialect) post7) = ''posts''"
    by (simp add: registry_defs)
  have "calls (fst (HasMany (plainHelpers sqliteDialect) freshDb post7 (''comments'', [])))
     = [CallQueryContext Background ''SELECT * FROM comments WHERE post_id = ?'' [VInt 7]]"
    using HasMany_defaults [OF rel, of freshDb]
    by (simp add: Let_def registry_defs Select_Build_def)
  with rel t show ?thesis by blast
qed

lemma not_HasMany:
  "\<forall>c. r \<noteq> Some (HasManyRel c) \<Longrightarrow>
   (case r of Some (HasManyRel c) \<Rightarrow> f c | _ \<Rightarrow> g) = g"
  by (cases r; simp split: RelationConfig.splits)

lemma not_HasOne:
  "\<forall>c. r \<noteq> Some (HasOneRel c) \<Longrightarrow>
   (case r of Some (HasOneRel c) \<Rightarrow> f c | _ \<Rightarrow> g) = g"
  by (cases r; simp split: RelationConfig.splits)

lemma not_BelongsTo:
  "\<forall>c. r \<noteq> Some (BelongsToRel c) \<Longrightarrow>
   (case r of Some (BelongsToRel c) \<Rightarrow> f c | _ \<Rightarrow> g) = g"
  by (cases r; simp split: RelationConfig.splits)

lemma not_BelongsToMany:
  "\<forall>c. r \<noteq> Some (BelongsToManyRel c) \<Longrightarrow>
   (case r of Some (BelongsToManyRel c) \<Rightarrow> f c | _ \<Rightarrow> g) = g"
  by (cases r; simp split: RelationConfig.splits)

lemma HasMany_wrong:
  "\<forall>c. relations (getSchemaFor H e) (Table (getSchemaFor H z)) \<noteq> Some (HasManyRel c) \<Longrightarrow>
   HasMany H db e z = (db, Inl (WrongConfig ''wrong config passed for HasMany''))"
  unfolding HasMany_def Let_def by (rule not_HasMany)

lemma HasOne_wrong:
  "\<forall>c. relations (getSchemaFor H e) (Table (getSchemaFor H z)) \<noteq> Some (HasOneRel c) \<Longrightarrow>
   HasOne H db e z = (db, z, Some (WrongConfig ''wrong config passed for HasOne''))"
  unfolding HasOne_def Let_def by (rule not_HasOne)

lemma BelongsTo_wrong:
  "\<forall>c. relations (getSchemaFor H e) (Table (getSchemaFor H z)) \<noteq> Some (BelongsToRel c) \<Longrightarrow>
   BelongsTo H db e z = (db, z, Some (WrongConfig ''wrong config passed for BelongsTo''))"
  unfolding BelongsTo_def Let_def by (rule not_BelongsTo)

lemma BelongsToMany_wrong:
  "\<forall>c. relations (getSchemaFor H e) (Table (getSchemaFor H z)) \<noteq> Some (BelongsToManyRel c) \<Longrightarrow>
   BelongsToMany H db e z = (db, Inl (WrongConfig ''wrong config passed for HasMany''))"
  unfolding BelongsToMany_def Let_def by (rule not_BelongsToMany)

text \<open>
  C7. Each of \<^verbatim>\<open>HasMany\<close>, \<^verbatim>\<open>HasOne\<close>, \<^verbatim>\<open>BelongsTo\<close> and \<^verbatim>\<open>BelongsToMany\<close>, called for an
  entity \<open>e\<close> and a target type (given by its zero value \<open>z\<close>) for which the schema of
  \<open>e\<close> does not store the config variant of that function (another variant, or nothing),
  returns its wrong-config error and the database as it was: no call was made on it.
\<close>

theorem wrong_relation_variant_is_rejected:
  "((\<forall>c. relations (getSchemaFor H e) (Table (getSchemaFor H z)) \<noteq> Some (HasManyRel c)) \<longrightarrow>
       HasMany H db e z = (db, Inl (WrongConfig ''wrong config passed for HasMany'')))
   \<and> ((\<forall>c. relations (getSchemaFor H e) (Table (getSchemaFor H z)) \<noteq> Some (HasOneRel c)) \<longrightarrow>
       HasOne H db e z = (db, z, Some (WrongConfig ''wrong config passed for HasOne'')))
   \<and> ((\<forall>c. relations (getSchemaFor H e) (Table (getSchemaFor H z)) \<noteq> Some (BelongsToRel c)) \<longrightarrow>
       BelongsTo H db e z = (db, z, Some (WrongConfig ''wrong config passed for BelongsTo'')))
   \<and> ((\<forall>c. relations (getSchemaFor H e) (Table (getSchemaFor H z))
              \<noteq> Some (BelongsToManyRel c)) \<longrightarrow>
       BelongsToMany H db e z = (db, Inl (WrongConfig ''wrong config passed for HasMany'')))"
  using HasMany_wrong [of H e z db] HasOne_wrong [of H e z db] BelongsTo_wrong [of H e z db]
    BelongsToMany_wrong [of H e z db]
  by blast

theorem wrong_relation_variant_is_rejected_witness:
  "relations (getSchemaFor (plainHelpers sqliteDialect) post7)
      (Table (getSchemaFor (plainHelpers sqliteDialect) (''tags'', [])))
     = Some (BelongsToManyRel \<lparr>IntermediateTable = ''post_tags'', IntermediatePropertyID = '''',
               IntermediateOwnerID = '''', ForeignTable = '''', ForeignLookupColumn = ''''\<rparr>)
   \<and> HasMany (plainHelpers sqliteDialect) freshDb post7 (''tags'', [])
       = (freshDb, Inl (WrongConfig ''wrong config passed for HasMany''))
   \<and> relations (getSchemaFor (plainHelpers sqliteDialect) post7)
      (Table (getSchemaFor (plainHelpers sqliteDialect) (''comments'', [])))
     = Some (HasManyRel \<lparr>HasManyConfig.PropertyTable = '''',
                          HasManyConfig.PropertyForeignKey = ''''\<rparr>)
   \<and> HasOne (plainHelpers sqliteDialect) freshDb post7 (''comments'', [])
       = (freshDb, (''comments'', []), Some (WrongConfig ''wrong config passed for HasOne''))
   \<and> BelongsTo (plainHelpers sqliteDialect) freshDb post7 (''comments'', [])
       = (freshDb, (''comments'', []), Some (WrongConfig ''wrong config passed for BelongsTo''))
   \<and> BelongsToMany (plainHelpers sqliteDialect) freshDb post7 (''comments'', [])
       = (freshDb, Inl (WrongConfig ''wrong config passed for HasMany''))"
proof -
  have r1: "relations (getSchemaFor (plainHelpers sqliteDialect) post7)
      (Table (getSchemaFor (plainHelpers sqliteDialect) (''tags'', [])))
     = Some (BelongsToManyRel \<lparr>IntermediateTable = ''post_tags'', IntermediatePropertyID = '''',
               IntermediateOwnerID = '''', ForeignTable = '''', ForeignLookupColumn = ''''\<rparr>)"
    by (simp add: registry_defs)
  have r2: "relations (getSchemaFor (plainHelpers sqliteDialect) post7)
      (Table (getSchemaFor (plainHelpers sqliteDialect) (''comments'', [])))
     = Some (HasManyRel \<lparr>HasManyConfig.PropertyTable = '''',
                          HasManyConfig.PropertyForeignKey = ''''\<rparr>)"
    by (simp add: registry_defs)
  show ?thesis
    using r1 r2
      wrong_relation_variant_is_rejected
        [of "plainHelpers sqliteDialect" post7 "(''tags'', [])" freshDb]
      wrong_relation_variant_is_rejected
        [of "plainHelpers sqliteDialect" post7 "(''comments'', [])" freshDb]
    by simp
qed

lemma query_then_bindMany_calls:
  "calls (fst (case db_Query db q args of
                 (db1, Inl err) \<Rightarrow> (db1, Inl err)
               | (db1, Inr rows) \<Rightarrow>
                   (case bindMany H s rows [] of
                      (output, Some err) \<Rightarrow> (db1, Inl err)
                    | (output, None) \<Rightarrow> (db1, Inr output))))
     = calls db @ [CallQuery q args]"
  by (simp add: db_Query_def split: sum.splits prod.splits option.splits)

lemma BelongsToMany_run:
  assumes rel: "relations (getSchemaFor H p) (Table (getSchemaFor H z))
                  = Some (BelongsToManyRel c)"
  shows "BelongsToMany H db p z =
    (if IntermediateTable c = '''' then (db, Inl CannotInferIntermediateTable)
     else (case db_Query db
                 (belongsToManyFormat
                    (strings_Join (Columns H (getSchemaFor H z) True) '','')
                    (Table (getSchemaFor H z))
                    (if ForeignLookupColumn c = '''' then pkName H (getSchemaFor H z)
                     else ForeignLookupColumn c)
                    (if IntermediateOwnerID c = ''''
                     then Singular H (Table (getSchemaFor H z)) @ ''_id''
                     else IntermediateOwnerID c)
                    (IntermediateTable c)
                    (if IntermediatePropertyID c = ''''
                     then Singular H (Table (getSchemaFor H p)) @ ''_id''
                     else IntermediatePropertyID c))
                 [genericGetPKValue H p] of
             (db1, Inl err) \<Rightarrow> (db1, Inl err)
           | (db1, Inr rows) \<Rightarrow>
               (case bindMany H (getSchemaFor H z) rows [] of
                  (output, Some err) \<Rightarrow> (db1, Inl err)
                | (output, None) \<Rightarrow> (db1, Inr output))))"
  unfolding BelongsToMany_def Let_def rel option.case RelationConfig.case
  by (cases c) simp

text \<open>
  C8. When the schema of the property stores a \<^verbatim>\<open>BelongsToManyConfig\<close> for the owner's
  table: with an empty \<^verbatim>\<open>IntermediateTable\<close> the call returns the cannot-infer error and
  the database as it was; with a non-empty one it makes its query, whatever the other
  four fields hold, an empty \<^verbatim>\<open>ForeignLookupColumn\<close> being read as the owner's key column,
  an empty \<^verbatim>\<open>IntermediateOwnerID\<close> and \<^verbatim>\<open>IntermediatePropertyID\<close> as the singular of the
  owner's and of the property's table name followed by \<^verbatim>\<open>_id\<close>. (\<^verbatim>\<open>ForeignTable\<close> is
  defaulted and then not used by the statement.)
\<close>

theorem BelongsToMany_needs_intermediate_table:
  assumes rel: "relations (getSchemaFor H p) (Table (getSchemaFor H z))
                  = Some (BelongsToManyRel c)"
  shows "(IntermediateTable c = '''' \<longrightarrow>
            BelongsToMany H db p z = (db, Inl CannotInferIntermediateTable))
       \<and> (IntermediateTable c \<noteq> '''' \<longrightarrow>
            calls (fst (BelongsToMany H db p z))
              = calls db @
                [CallQuery
                  (belongsToManyFormat
                     (strings_Join (Columns H (getSchemaFor H z) True) '','')
                     (Table (getSchemaFor H z))
                     (if ForeignLookupColumn c = '''' then pkName H (getSchemaFor H z)
                      else ForeignLookupColumn c)
                     (if IntermediateOwnerID c = ''''
                      then Singular H (Table (getSchemaFor H z)) @ ''_id''
                      else IntermediateOwnerID c)
                     (IntermediateTable c)
                     (if IntermediatePropertyID c = ''''
                      then Singular H (Table (getSchemaFor H p)) @ ''_id''
                      else IntermediatePropertyID c))
                  [genericGetPKValue H p]])"
proof (intro conjI impI)
  assume "IntermediateTable c = ''''"
  then show "BelongsToMany H db p z = (db, Inl CannotInferIntermediateTable)"
    unfolding BelongsToMany_run [OF rel] by (simp only: simp_thms if_True)
next
  assume "IntermediateTable c \<noteq> ''''"
  then show "calls (fst (BelongsToMany H db p z))
              = calls db @
                [CallQuery
                  (belongsToManyFormat
                     (strings_Join (Columns H (getSchemaFor H z) True) '','')
                     (Table (getSchemaFor H z))
                     (if ForeignLookupColumn c = '''' then pkName H (getSchemaFor H z)
                      else ForeignLookupColumn c)
                     (if IntermediateOwnerID c = ''''
                      then Singular H (Table (getSchemaFor H z)) @ ''_id''
                      else IntermediateOwnerID c)
                     (IntermediateTable c)
                     (if IntermediatePropertyID c = ''''
                      then Singular H (Table (getSchemaFor H p)) @ ''_id''
                      else IntermediatePropertyID c))
                  [genericGetPKValue H p]]"
    unfolding BelongsToMany_run [OF rel] by (simp only: query_then_bindMany_calls if_False)
qed

theorem BelongsToMany_needs_intermediate_table_witness:
  "relations (getSchemaFor (plainHelpers sqliteDialect) (''tags'', [VInt 3, VString ''go'']))
     (Table (getSchemaFor (plainHelpers sqliteDialect) (''posts'', [])))
     = Some (BelongsToManyRel \<lparr>IntermediateTable = '''', IntermediatePropertyID = '''',
               IntermediateOwnerID = '''', ForeignTable = '''', ForeignLookupColumn = ''''\<rparr>)
   \<and> BelongsToMany (plainHelpers sqliteDialect) freshDb (''tags'', [VInt 3, VString ''go''])
        (''posts'', [])
     = (freshDb, Inl CannotInferIntermediateTable)
   \<and> relations (getSchemaFor (plainHelpers sqliteDialect) post7)
     (Table (getSchemaFor (plainHelpers sqliteDialect) (''tags'', [])))
     = Some (BelongsToManyRel \<lparr>IntermediateTable = ''post_tags'', IntermediatePropertyID = '''',
               IntermediateOwnerID = '''', ForeignTable = '''', ForeignLookupColumn = ''''\<rparr>)
   \<and> calls (fst (BelongsToMany (plainHelpers sqliteDialect) freshDb post7 (''tags'', [])))
     = [CallQuery
         ''select id,label from tags where id IN (select tag_id from post_tags where post_id = ?)''
         [VInt 7]]"
proof -
  have r1: "relations (getSchemaFor (plainHelpers sqliteDialect) (''tags'', [VInt 3, VString ''go'']))
     (Table (getSchemaFor (plainHelpers sqliteDialect) (''posts'', [])))
     = Some (BelongsToManyRel \<lparr>IntermediateTable = '''', IntermediatePropertyID = '''',
               IntermediateOwnerID = '''', ForeignTable = '''', ForeignLookupColumn = ''''\<rparr>)"
    by (simp add: registry_defs)
  have r2: "relations (getSchemaFor (plainHelpers sqliteDialect) post7)
     (Table (getSchemaFor (plainHelpers sqliteDialect) (''tags'', [])))
     = Some (BelongsToManyRel \<lparr>IntermediateTable = ''post_tags'', IntermediatePropertyID = '''',
               IntermediateOwnerID = '''', ForeignTable = '''', ForeignLookupColumn = ''''\<rparr>)"
    by (simp add: registry_defs)
  have a: "BelongsToMany (plainHelpers sqliteDialect) freshDb (''tags'', [VInt 3, VString ''go''])
        (''posts'', []) = (freshDb, Inl CannotInferIntermediateTable)"
    using BelongsToMany_needs_intermediate_table [OF r1, of freshDb] by simp
  have b: "calls (fst (BelongsToMany (plainHelpers sqliteDialect) freshDb post7 (''tags'', [])))
     = [CallQuery
         ''select id,label from tags where id IN (select tag_id from post_tags where post_id = ?)''
         [VInt 7]]"
    using BelongsToMany_needs_intermediate_table [OF r2, of freshDb]
    by (simp add: registry_defs belongsToManyFormat_def)
  from r1 r2 a b show ?thesis by blast
qed

text \<open>
  C9. \<^verbatim>\<open>Add\<close> returns nil for every pair of arguments and leaves the database and both
  arguments as they were.
\<close>

theorem Add_does_nothing:
  "Add db to items = (db, to, items, None)"
  by (simp add: Add_def)

lemma count_markers_single: "count_markers [m] s = length (filter (\<lambda>x. x = m) s)"
  by (induction s) simp_all

lemma format_has_one_marker:
  assumes "CHR ''?'' \<notin> set (a1 @ a2 @ a3 @ a4 @ a5 @ a6)"
  shows "count_markers ''?'' (belongsToManyFormat a1 a2 a3 a4 a5 a6) = 1"
proof -
  have z: "\<And>a. CHR ''?'' \<notin> set a \<Longrightarrow> filter (\<lambda>x. x = CHR ''?'') a = []"
    by (auto simp: filter_empty_conv)
  from assms show ?thesis
    by (simp add: count_markers_single belongsToManyFormat_def z)
qed

text \<open>
  C10. When the schema of the property stores a \<^verbatim>\<open>BelongsToManyConfig\<close> with an intermediate
  table, \<^verbatim>\<open>BelongsToMany\<close> makes one query: its text is the fixed format filled with the
  six names and ends in the literal \<^verbatim>\<open>= ?)\<close>, and its only argument is the key of the
  property. No dialect field occurs in the text, for any dialect; when none of the six
  names contains a question mark, the text holds exactly one \<^verbatim>\<open>?\<close>.
\<close>

theorem BelongsToMany_literal_placeholder:
  assumes rel: "relations (getSchemaFor H p) (Table (getSchemaFor H z))
                  = Some (BelongsToManyRel c)"
    and inter: "IntermediateTable c \<noteq> ''''"
  shows "let cols = strings_Join (Columns H (getSchemaFor H z) True) '','';
             tbl = Table (getSchemaFor H z);
             lookup = (if ForeignLookupColumn c = '''' then pkName H (getSchemaFor H z)
                       else ForeignLookupColumn c);
             ownerID = (if IntermediateOwnerID c = ''''
                        then Singular H (Table (getSchemaFor H z)) @ ''_id''
                        else IntermediateOwnerID c);
             propID = (if IntermediatePropertyID c = ''''
                       then Singular H (Table (getSchemaFor H p)) @ ''_id''
                       else IntermediatePropertyID c);
             q = ''select '' @ cols @ '' from '' @ tbl @ '' where '' @ lookup
                 @ '' IN (select '' @ ownerID @ '' from '' @ IntermediateTable c
                 @ '' where '' @ propID @ '' = ?)''
         in calls (fst (BelongsToMany H db p z))
              = calls db @ [CallQuery q [genericGetPKValue H p]]
          \<and> (CHR ''?'' \<notin> set (cols @ tbl @ lookup @ ownerID @ IntermediateTable c @ propID)
               \<longrightarrow> count_markers ''?'' q = 1)"
proof -
  have run: "calls (fst (BelongsToMany H db p z))
     = calls db @
       [CallQuery
         (belongsToManyFormat
            (strings_Join (Columns H (getSchemaFor H z) True) '','')
            (Table (getSchemaFor H z))
            (if ForeignLookupColumn c = '''' then pkName H (getSchemaFor H z)
             else ForeignLookupColumn c)
            (if IntermediateOwnerID c = ''''
             then Singular H (Table (getSchemaFor H z)) @ ''_id''
             else IntermediateOwnerID c)
            (IntermediateTable c)
            (if IntermediatePropertyID c = ''''
             then Singular H (Table (getSchemaFor H p)) @ ''_id''
             else IntermediatePropertyID c))
         [genericGetPKValue H p]]"
    unfolding BelongsToMany_run [OF rel] using inter
    by (simp only: query_then_bindMany_calls if_False)
  show ?thesis
    unfolding Let_def belongsToManyFormat_def [symmetric]
    using run format_has_one_marker by blast
qed

theorem BelongsToMany_literal_placeholder_witness:
  "relations (getSchemaFor (plainHelpers postgresDialect) post7)
     (Table (getSchemaFor (plainHelpers postgresDialect) (''tags'', [])))
     = Some (BelongsToManyRel \<lparr>IntermediateTable = ''post_tags'', IntermediatePropertyID = '''',
               IntermediateOwnerID = '''', ForeignTable = '''', ForeignLookupColumn = ''''\<rparr>)
   \<and> ''post_tags'' \<noteq> ''''
   \<and> dialect (getSchemaFor (plainHelpers postgresDialect) post7) = postgresDialect
   \<and> dialect (getSchemaFor (plainHelpers postgresDialect) (''tags'', [])) = postgresDialect
   \<and> calls (fst (BelongsToMany (plainHelpers postgresDialect) freshDb post7 (''tags'', [])))
     = [CallQuery
         ''select id,label from tags where id IN (select tag_id from post_tags where post_id = ?)''
         [VInt 7]]
   \<and> count_markers ''?''
        ''select id,label from tags where id IN (select tag_id from post_tags where post_id = ?)''
     = 1"
proof -
  have r: "relations (getSchemaFor (plainHelpers postgresDialect) post7)
     (Table (getSchemaFor (plainHelpers postgresDialect) (''tags'', [])))
     = Some (BelongsToManyRel \<lparr>IntermediateTable = ''post_tags'', IntermediatePropertyID = '''',
               IntermediateOwnerID = '''', ForeignTable = '''', ForeignLookupColumn = ''''\<rparr>)"
    by (simp add: registry_defs)
  have i: "IntermediateTable \<lparr>IntermediateTable = ''post_tags'', IntermediatePropertyID = '''',
               IntermediateOwnerID = '''', ForeignTable = '''', ForeignLookupColumn = ''''\<rparr>
           \<noteq> ''''"
    by simp
  have d: "dialect (getSchemaFor (plainHelpers postgresDialect) post7) = postgresDialect"
    "dialect (getSchemaFor (plainHelpers postgresDialect) (''tags'', [])) = postgresDialect"
    by (simp_all add: plainHelpers_def registry_def post7_def postsSchema_def tagsSchema_def)
  have "calls (fst (BelongsToMany (plainHelpers postgresDialect) freshDb post7 (''tags'', [])))
     = [CallQuery
         ''select id,label from tags where id IN (select tag_id from post_tags where post_id = ?)''
         [VInt 7]]
   \<and> count_markers ''?''
        ''select id,label from tags where id IN (select tag_id from post_tags where post_id = ?)''
     = 1"
    using BelongsToMany_literal_placeholder [OF r i, of freshDb]
    by (simp add: Let_def registry_defs)
  with r d show ?thesis by simp
qed

end
